theory Spec2Isabelle
  imports Complex_Main
begin

section \<open>Attendance evidence pipeline and reconciliation state machine\<close>

text \<open>
  A shallow embedding of \<^verbatim>\<open>utils/gps_extractor.py\<close>, of the attendance functions of
  \<^verbatim>\<open>routes/employee_routes.py\<close> and of the approve and reject handlers of
  \<^verbatim>\<open>routes/admin_routes.py\<close>.

  Conventions. Python floats are modelled as \<^typ>\<open>real\<close> (exact arithmetic, no rounding
  of the binary representation), Python ints as \<^typ>\<open>int\<close>, \<^verbatim>\<open>None\<close> as
  \<^const>\<open>None\<close>. Calls into libraries outside the repository (the regular expression
  engine, \<^verbatim>\<open>strptime\<close>, the geodesic distance, OCR, face matching) are parameters of
  the functions that make them.
\<close>

subsection \<open>Python built-ins used by the source\<close>

text \<open>\<^verbatim>\<open>int(x)\<close> on a float truncates toward zero.\<close>

definition py_trunc :: "real \<Rightarrow> int" where
  "py_trunc x = (if 0 \<le> x then \<lfloor>x\<rfloor> else \<lceil>x\<rceil>)"

text \<open>\<^verbatim>\<open>round(x)\<close> with one argument rounds to the nearest integer, ties to even.\<close>

definition py_round :: "real \<Rightarrow> int" where
  "py_round x =
     (let f = \<lfloor>x\<rfloor>; r = x - of_int f
      in if r < 1 / 2 then f
         else if 1 / 2 < r then f + 1
         else if even f then f else f + 1)"

text \<open>
  Strings are lists of ASCII characters. \<^verbatim>\<open>int(s)\<close> and \<^verbatim>\<open>float(s)\<close> are modelled on
  the strings the patterns of the source capture: a run of decimal digits for \<^verbatim>\<open>int\<close>; an
  optional minus sign, digits and an optional fraction for \<^verbatim>\<open>float\<close>. On any other
  string the model raises (\<^const>\<open>None\<close>).
\<close>

definition is_digit :: "char \<Rightarrow> bool" where
  "is_digit c = (c \<in> set ''0123456789'')"

definition digit_val :: "char \<Rightarrow> nat" where
  "digit_val c = of_char c - 48"

definition digits_val :: "string \<Rightarrow> nat" where
  "digits_val s = foldl (\<lambda>acc c. 10 * acc + digit_val c) 0 s"

definition py_int :: "string \<Rightarrow> int option" where
  "py_int s = (if s \<noteq> [] \<and> list_all is_digit s then Some (int (digits_val s)) else None)"

definition py_float :: "string \<Rightarrow> real option" where
  "py_float s =
     (let neg = (s \<noteq> [] \<and> hd s = CHR ''-'');
          t = (if neg then tl s else s);
          ip = takeWhile is_digit t;
          rest = dropWhile is_digit t;
          sg = (if neg then - 1 else 1 :: real)
      in if ip = [] then None
         else if rest = [] then Some (sg * real (digits_val ip))
         else if hd rest = CHR ''.'' \<and> tl rest \<noteq> [] \<and> list_all is_digit (tl rest)
           then Some (sg * (real (digits_val ip)
                            + real (digits_val (tl rest)) / 10 ^ length (tl rest)))
         else None)"

text \<open>Decimal rendering of an integer, and the format specification \<^verbatim>\<open>0wd\<close>.\<close>

fun show_nat :: "nat \<Rightarrow> string" where
  "show_nat n =
     (if n < 10 then [char_of (48 + n)] else show_nat (n div 10) @ [char_of (48 + n mod 10)])"

declare show_nat.simps [simp del]

definition show_int :: "int \<Rightarrow> string" where
  "show_int i = (if i < 0 then CHR ''-'' # show_nat (nat (- i)) else show_nat (nat i))"

definition fmt_0d :: "nat \<Rightarrow> int \<Rightarrow> string" where
  "fmt_0d w i =
     (let s = show_nat (nat \<bar>i\<bar>);
          sign = (if i < 0 then ''-'' else [])
      in sign @ replicate (w - length sign - length s) CHR ''0'' @ s)"

text \<open>
  \<^verbatim>\<open>str.strip()\<close>, \<^verbatim>\<open>str.upper()\<close> and \<^verbatim>\<open>str.replace("  ", " ")\<close> on ASCII text.
\<close>

definition is_space :: "char \<Rightarrow> bool" where
  "is_space c =
     (let n = (of_char c :: nat) in n = 32 \<or> (9 \<le> n \<and> n \<le> 13) \<or> (28 \<le> n \<and> n \<le> 31))"

definition py_strip :: "string \<Rightarrow> string" where
  "py_strip s = rev (dropWhile is_space (rev (dropWhile is_space s)))"

definition py_upper :: "string \<Rightarrow> string" where
  "py_upper s =
     map (\<lambda>c. let n = (of_char c :: nat) in if 97 \<le> n \<and> n \<le> 122 then char_of (n - 32) else c) s"

fun replace_double_space :: "string \<Rightarrow> string" where
  "replace_double_space (a # b # xs) =
     (if a = CHR '' '' \<and> b = CHR '' '' then CHR '' '' # replace_double_space xs
      else a # replace_double_space (b # xs))"
| "replace_double_space xs = xs"

text \<open>Truthiness of an optional string: \<^verbatim>\<open>None\<close> and the empty string are falsy.\<close>

definition truthy :: "string option \<Rightarrow> bool" where
  "truthy s = (case s of None \<Rightarrow> False | Some x \<Rightarrow> x \<noteq> [])"

text \<open>An optional string interpolated into an f-string.\<close>

definition py_str :: "string option \<Rightarrow> string" where
  "py_str s = (case s of None \<Rightarrow> ''None'' | Some x \<Rightarrow> x)"

text \<open>
  A \<^verbatim>\<open>datetime\<close> is a count of microseconds on the proleptic calendar; its date is the
  day number, its time of day the remainder. A \<^verbatim>\<open>timedelta\<close> is a difference of two.
\<close>

type_synonym datetime = int
type_synonym date = int

definition usec_per_day :: int where
  "usec_per_day = 86400000000"

definition date_of :: "datetime \<Rightarrow> date" where
  "date_of dt = dt div usec_per_day"

definition time_of :: "datetime \<Rightarrow> int" where
  "time_of dt = dt mod usec_per_day"

subsection \<open>EXIF helpers (\<^verbatim>\<open>gps_extractor.py\<close>)\<close>

text \<open>An EXIF rational is a pair (numerator, denominator).\<close>

type_synonym rational = "int \<times> int"

text \<open>
  The GPS IFD of an image, a dictionary from tag to value. Only the four tags the source
  reads and writes are kept; a tag that is absent from the dictionary is \<^const>\<open>None\<close>.
\<close>

record gps_ifd =
  GPSLatitudeRef :: "string option"
  GPSLatitude :: "rational list option"
  GPSLongitudeRef :: "string option"
  GPSLongitude :: "rational list option"

text \<open>
  \<^verbatim>\<open>
  def _deg_to_dms_rational(deg_float):
      deg_abs = abs(deg_float)
      d = int(deg_abs)
      m = int((deg_abs - d)*60)
      s = round((deg_abs - d - m/60)*3600 * 100)
      return [(d,1),(m,1),(s,100)]
  \<close>
\<close>

definition deg_to_dms_rational :: "real \<Rightarrow> rational list" where
  "deg_to_dms_rational deg_float =
     (let deg_abs = \<bar>deg_float\<bar>;
          d = py_trunc deg_abs;
          m = py_trunc ((deg_abs - of_int d) * 60);
          s = py_round ((deg_abs - of_int d - of_int m / 60) * 3600 * 100)
      in [(d, 1), (m, 1), (s, 100)])"

text \<open>
  \<^verbatim>\<open>inject_gps_into_exif\<close>: the GPS dictionary that the function builds and saves into the
  image (the EXIF block it writes holds nothing else). Saving can fail; the source catches
  the exception and leaves the image as it was.
\<close>

definition inject_gps_into_exif :: "real \<Rightarrow> real \<Rightarrow> gps_ifd" where
  "inject_gps_into_exif lat lon =
     \<lparr> GPSLatitudeRef = Some (if 0 \<le> lat then ''N'' else ''S''),
       GPSLatitude = Some (deg_to_dms_rational lat),
       GPSLongitudeRef = Some (if 0 \<le> lon then ''E'' else ''W''),
       GPSLongitude = Some (deg_to_dms_rational lon) \<rparr>"

text \<open>
  \<^verbatim>\<open>rational_to_float\<close>, the local function of \<^verbatim>\<open>extract_gps_from_exif\<close>. It indexes the
  first three rationals and divides; a list shorter than three (IndexError) or a zero
  denominator (ZeroDivisionError) raises, which is \<^const>\<open>None\<close> here.
\<close>

fun rational_to_float :: "rational list \<Rightarrow> real option" where
  "rational_to_float ((n0, d0) # (n1, d1) # (n2, d2) # _) =
     (if d0 = 0 \<or> d1 = 0 \<or> d2 = 0 then None
      else Some (of_int n0 / of_int d0 + of_int n1 / of_int d1 / 60
                 + of_int n2 / of_int d2 / 3600))"
| "rational_to_float _ = None"

text \<open>
  \<^verbatim>\<open>extract_gps_from_exif\<close>. The argument is the EXIF block of the image: \<^const>\<open>None\<close> when
  the image has none (or cannot be opened), otherwise its GPS dictionary. Every exception
  (a missing tag, a malformed rational) is caught by the source and gives
  \<^verbatim>\<open>(None, None)\<close>.
\<close>

definition extract_gps_from_exif :: "gps_ifd option \<Rightarrow> real option \<times> real option" where
  "extract_gps_from_exif exif_data =
     (case exif_data of
        None \<Rightarrow> (None, None)
      | Some gps \<Rightarrow>
          (case GPSLatitude gps of
             None \<Rightarrow> (None, None)
           | Some lat_rat \<Rightarrow>
               (case (rational_to_float lat_rat, GPSLongitude gps,
                      GPSLatitudeRef gps, GPSLongitudeRef gps) of
                  (Some lat, Some lon_rat, Some lat_ref, Some lon_ref) \<Rightarrow>
                    (case rational_to_float lon_rat of
                       None \<Rightarrow> (None, None)
                     | Some lon \<Rightarrow>
                         (Some (if lat_ref = ''S'' then - lat else lat),
                          Some (if lon_ref = ''W'' then - lon else lon)))
                | _ \<Rightarrow> (None, None))))"

subsection \<open>Overlay OCR extractor (\<^verbatim>\<open>extract_gps_from_text_overlay\<close>)\<close>

text \<open>
  The regular expressions of the source, by name, in the order of the lists
  \<^verbatim>\<open>gps_patterns\<close>, \<^verbatim>\<open>date_patterns\<close>, \<^verbatim>\<open>time_patterns\<close> and \<^verbatim>\<open>address_pattern\<close>:
  decimal pair; \<^verbatim>\<open>Lat .. Long ..\<close>; \<^verbatim>\<open>Latitude .. Longitude ..\<close>; degrees, minutes and
  seconds; \<^verbatim>\<open>(\d{1,2})[\-/](\d{1,2})[\-/](\d{2,4})\<close>; \<^verbatim>\<open>(\d{4})[\-/](\d{1,2})[\-/](\d{1,2})\<close>;
  \<^verbatim>\<open>(\d{1,2}):(\d{2})(?::(\d{2}))?\s*(AM|PM|am|pm)?\<close>; the address pattern.
\<close>

datatype pattern =
  GpsDecimal | GpsLatLong | GpsLatitudeLongitude | GpsDMS
  | DateDMY | DateYMD | TimeHM | AddressPattern

text \<open>
  A match object: \<^verbatim>\<open>match.group(0)\<close> and \<^verbatim>\<open>match.groups()\<close> (a group that did not
  take part in the match is \<^verbatim>\<open>None\<close>). \<^verbatim>\<open>re.search\<close> is the library's: a parameter
  \<open>re\<close> of every function that calls it.
\<close>

record rmatch =
  group0 :: string
  groups :: "string option list"

type_synonym re_search = "pattern \<Rightarrow> string \<Rightarrow> rmatch option"

definition gps_patterns :: "pattern list" where
  "gps_patterns = [GpsDecimal, GpsLatLong, GpsLatitudeLongitude, GpsDMS]"

definition date_patterns :: "pattern list" where
  "date_patterns = [DateDMY, DateYMD]"

definition time_patterns :: "pattern list" where
  "time_patterns = [TimeHM]"

text \<open>
  The body of the \<^verbatim>\<open>try\<close> of the GPS loop up to the range check: two groups are a decimal
  pair, six groups are degrees, minutes and seconds, anything else is skipped
  (\<^verbatim>\<open>continue\<close>). \<^const>\<open>None\<close> is both the \<^verbatim>\<open>continue\<close> and a caught exception: in
  either case the loop goes on with the next pattern.
\<close>

definition float_group :: "string option \<Rightarrow> real option" where
  "float_group g = (case g of None \<Rightarrow> None | Some s \<Rightarrow> py_float s)"

definition int_group :: "string option \<Rightarrow> int option" where
  "int_group g = (case g of None \<Rightarrow> None | Some s \<Rightarrow> py_int s)"

definition dms_value :: "string option \<Rightarrow> string option \<Rightarrow> string option \<Rightarrow> real option" where
  "dms_value d m s =
     (case (int_group d, int_group m, float_group s) of
        (Some dv, Some mv, Some sv) \<Rightarrow> Some (of_int dv + of_int mv / 60 + sv / 3600)
      | _ \<Rightarrow> None)"

definition parse_gps_match :: "rmatch \<Rightarrow> (real \<times> real) option" where
  "parse_gps_match m =
     (case groups m of
        [g1, g2] \<Rightarrow>
          (case (float_group g1, float_group g2) of
             (Some lat, Some lon) \<Rightarrow> Some (lat, lon)
           | _ \<Rightarrow> None)
      | [d1, m1, s1, d2, m2, s2] \<Rightarrow>
          (case (dms_value d1 m1 s1, dms_value d2 m2 s2) of
             (Some lat, Some lon) \<Rightarrow> Some (lat, lon)
           | _ \<Rightarrow> None)
      | _ \<Rightarrow> None)"

text \<open>
  The loop \<^verbatim>\<open>for pattern in gps_patterns\<close> on one OCR text: the pair it stores in
  \<^verbatim>\<open>found\<close> before its \<^verbatim>\<open>break\<close>, or \<^const>\<open>None\<close> when it ends without storing one.
\<close>

fun gps_loop :: "re_search \<Rightarrow> string \<Rightarrow> pattern list \<Rightarrow> (real \<times> real) option" where
  "gps_loop re text [] = None"
| "gps_loop re text (p # ps) =
     (case re p text of
        None \<Rightarrow> gps_loop re text ps
      | Some m \<Rightarrow>
          (case parse_gps_match m of
             None \<Rightarrow> gps_loop re text ps
           | Some (lat, lon) \<Rightarrow>
               if - 90 \<le> lat \<and> lat \<le> 90 \<and> - 180 \<le> lon \<and> lon \<le> 180
               then Some (lat, lon)
               else gps_loop re text ps))"

text \<open>
  The date branch.
  \<^verbatim>\<open>
  if a > 12 and 1 <= b <= 12:   d, m = a, b
  elif b > 12 and 1 <= a <= 12: d, m = b, a
  else:                         d, m = a, b
  \<close>
\<close>

definition day_month :: "int \<Rightarrow> int \<Rightarrow> int \<times> int" where
  "day_month a b =
     (if 12 < a \<and> 1 \<le> b \<and> b \<le> 12 then (a, b)
      else if 12 < b \<and> 1 \<le> a \<and> a \<le> 12 then (b, a)
      else (a, b))"

text \<open>\<^verbatim>\<open>f"{int(d):02d}/{int(m):02d}/{int(y):04d}"\<close>\<close>

definition format_date :: "int \<Rightarrow> int \<Rightarrow> int \<Rightarrow> string" where
  "format_date d m y = fmt_0d 2 d @ ''/'' @ fmt_0d 2 m @ ''/'' @ fmt_0d 4 y"

definition parse_date_groups :: "string \<Rightarrow> string \<Rightarrow> string \<Rightarrow> string option" where
  "parse_date_groups g1 g2 g3 =
     (if length g3 = 4 then
        (case (py_int g1, py_int g2, py_int g3) of
           (Some a, Some b, Some y) \<Rightarrow>
             (case day_month a b of (d, m) \<Rightarrow> Some (format_date d m y))
         | _ \<Rightarrow> None)
      else
        (case (py_int g1, py_int g2, py_int g3) of
           (Some y, Some m, Some d) \<Rightarrow> Some (format_date d m y)
         | _ \<Rightarrow> None))"

text \<open>
  The result of one pass of the date loop's body on a match: \<^const>\<open>None\<close> when the loop
  goes on to the next pattern (the match has not three groups, or an exception was
  caught), \<open>Some s\<close> when it stores \<open>s\<close> and breaks.
\<close>

definition parse_date_match :: "rmatch \<Rightarrow> string option" where
  "parse_date_match m =
     (case groups m of
        [Some g1, Some g2, Some g3] \<Rightarrow> parse_date_groups g1 g2 g3
      | _ \<Rightarrow> None)"

fun date_loop :: "re_search \<Rightarrow> string \<Rightarrow> pattern list \<Rightarrow> string option" where
  "date_loop re text [] = None"
| "date_loop re text (p # ps) =
     (case re p text of
        None \<Rightarrow> date_loop re text ps
      | Some m \<Rightarrow>
          (case parse_date_match m of
             None \<Rightarrow> date_loop re text ps
           | Some s \<Rightarrow> Some s))"

text \<open>
  The time branch.
  \<^verbatim>\<open>
  h, mi = match.group(1), match.group(2)
  s = match.group(3) if match.group(3) else "00"
  ampm = match.group(4) if match.group(4) else ""
  found["time"] = f"{h}:{mi}:{s} {ampm}".strip()
  \<close>
  A match with fewer than four groups raises IndexError, which the loop catches.
\<close>

definition parse_time_match :: "rmatch \<Rightarrow> string option" where
  "parse_time_match m =
     (case groups m of
        h # mi # g3 # g4 # _ \<Rightarrow>
          (let s = (if truthy g3 then the g3 else ''00'');
               ampm = (if truthy g4 then the g4 else [])
           in Some (py_strip (py_str h @ '':'' @ py_str mi @ '':'' @ s @ '' '' @ ampm)))
      | _ \<Rightarrow> None)"

fun time_loop :: "re_search \<Rightarrow> string \<Rightarrow> pattern list \<Rightarrow> string option" where
  "time_loop re text [] = None"
| "time_loop re text (p # ps) =
     (case re p text of
        None \<Rightarrow> time_loop re text ps
      | Some m \<Rightarrow>
          (case parse_time_match m of
             None \<Rightarrow> time_loop re text ps
           | Some s \<Rightarrow> Some s))"

text \<open>The dictionary \<^verbatim>\<open>found\<close>.\<close>

record found =
  found_lat :: "real option"
  found_lon :: "real option"
  found_date :: "string option"
  found_time :: "string option"
  found_address :: "string option"

text \<open>
  One iteration of \<^verbatim>\<open>for label, text in ocr_results.items()\<close>: each of the four parts
  overwrites its entry of \<^verbatim>\<open>found\<close> when it has a result and leaves it alone otherwise.
\<close>

definition scan_text :: "re_search \<Rightarrow> found \<Rightarrow> string \<Rightarrow> found" where
  "scan_text re f text =
     (let f1 = (case gps_loop re text gps_patterns of
                  None \<Rightarrow> f
                | Some (lat, lon) \<Rightarrow> f\<lparr>found_lat := Some lat, found_lon := Some lon\<rparr>);
          f2 = (case date_loop re text date_patterns of
                  None \<Rightarrow> f1
                | Some d \<Rightarrow> f1\<lparr>found_date := Some d\<rparr>);
          f3 = (case time_loop re text time_patterns of
                  None \<Rightarrow> f2
                | Some t \<Rightarrow> f2\<lparr>found_time := Some t\<rparr>)
      in (case re AddressPattern text of
            None \<Rightarrow> f3
          | Some m \<Rightarrow> f3\<lparr>found_address := Some (group0 m)\<rparr>))"

text \<open>
  The OCR text of each raster variant, after \<^verbatim>\<open>clean_ocr_text\<close>, and the dictionary
  \<^verbatim>\<open>ocr_results\<close> the source fills from the literal
  \<^verbatim>\<open>{'cropped': .., 'full': .., 'cropped_th': .., 'full_th': ..}\<close>: a dictionary iterates in
  insertion order.
\<close>

record ocr_texts =
  cropped :: string
  full :: string
  cropped_th :: string
  full_th :: string

definition ocr_results :: "ocr_texts \<Rightarrow> (string \<times> string) list" where
  "ocr_results t =
     [(''cropped'', cropped t), (''full'', full t),
      (''cropped_th'', cropped_th t), (''full_th'', full_th t)]"

text \<open>
  The value returned: the pair \<^verbatim>\<open>(None, None)\<close> when the image cannot be read or OCR
  raises, a 5-tuple otherwise.
\<close>

datatype overlay_result =
  NoneNone
  | Overlay "real option" "real option" "string option" "string option" "string option"

definition found_init :: found where
  "found_init = \<lparr> found_lat = None, found_lon = None, found_date = None,
                   found_time = None, found_address = None \<rparr>"

text \<open>
  The argument is what OCR gives on the image: \<^const>\<open>None\<close> when \<^verbatim>\<open>cv2.imread\<close> returns
  nothing or an exception reaches the outer handler.
\<close>

definition extract_gps_from_text_overlay :: "re_search \<Rightarrow> ocr_texts option \<Rightarrow> overlay_result" where
  "extract_gps_from_text_overlay re ocr =
     (case ocr of
        None \<Rightarrow> NoneNone
      | Some t \<Rightarrow>
          (let f = foldl (scan_text re) found_init (map snd (ocr_results t))
           in if found_lat f \<noteq> None \<and> found_lon f \<noteq> None
              then Overlay (found_lat f) (found_lon f) (found_date f) (found_time f) (found_address f)
              else Overlay None None (found_date f) (found_time f) (found_address f)))"

subsection \<open>Evidence resolver (\<^verbatim>\<open>extract_gps_and_datetime\<close>)\<close>

text \<open>\<^verbatim>\<open>datetime.strptime\<close> is the library's: a parameter, \<^const>\<open>None\<close> when it raises.\<close>

type_synonym strptime = "string \<Rightarrow> string \<Rightarrow> datetime option"

definition datetime_formats :: "string list" where
  "datetime_formats =
     [''%d/%m/%Y %I:%M:%S %p'', ''%d/%m/%Y %I:%M %p'', ''%d/%m/%Y %H:%M:%S'', ''%d/%m/%Y %H:%M'']"

fun try_formats :: "strptime \<Rightarrow> string \<Rightarrow> string list \<Rightarrow> datetime option \<times> bool" where
  "try_formats sp s [] = (None, False)"
| "try_formats sp s (fmt # fmts) =
     (case sp s fmt of
        Some dt \<Rightarrow> (Some dt, True)
      | None \<Rightarrow> try_formats sp s fmts)"

text \<open>
  \<^verbatim>\<open>extract_datetime_from_text_overlay\<close> runs the overlay extractor again on the same
  image; unpacking the pair \<^verbatim>\<open>(None, None)\<close> into five names raises, which its handler
  turns into \<^verbatim>\<open>(None, False)\<close>.
\<close>

definition extract_datetime_from_text_overlay ::
  "re_search \<Rightarrow> strptime \<Rightarrow> ocr_texts option \<Rightarrow> datetime option \<times> bool" where
  "extract_datetime_from_text_overlay re sp ocr =
     (case extract_gps_from_text_overlay re ocr of
        NoneNone \<Rightarrow> (None, False)
      | Overlay _ _ date_str time_str _ \<Rightarrow>
          if \<not> truthy date_str \<or> \<not> truthy time_str then (None, False)
          else
            (let time_str' = py_strip (replace_double_space (py_upper (the time_str)))
             in try_formats sp (the date_str @ '' '' @ time_str') datetime_formats))"

text \<open>
  What the resolver reads from an image: its EXIF GPS block, the value
  \<^verbatim>\<open>extract_datetime_from_exif\<close> returns for it, and the OCR texts of its overlay.
\<close>

record photo =
  exif :: "gps_ifd option"
  exif_datetime :: "datetime option"
  overlay :: "ocr_texts option"

datatype error = ValueError | AttributeError | NotFound

text \<open>
  \<^verbatim>\<open>extract_gps_and_datetime\<close>; \<open>today\<close> is \<^verbatim>\<open>datetime.now().date()\<close>. The result is the
  5-tuple \<^verbatim>\<open>(lat, lon, dt, address, method)\<close>, or the ValueError of unpacking the pair
  \<^verbatim>\<open>(None, None)\<close> of the overlay extractor into five names. The injection of the pair
  into the image's EXIF on success does not change the value returned and is left out.
\<close>

type_synonym evidence =
  "real option \<times> real option \<times> datetime option \<times> string option \<times> string option"

definition extract_gps_and_datetime ::
  "re_search \<Rightarrow> strptime \<Rightarrow> date \<Rightarrow> photo \<Rightarrow> error + evidence" where
  "extract_gps_and_datetime re sp today ph =
     (case extract_gps_from_exif (exif ph) of
        (Some lat, Some lon) \<Rightarrow> Inr (Some lat, Some lon, exif_datetime ph, Some [], Some ''EXIF'')
      | _ \<Rightarrow>
          (case extract_gps_from_text_overlay re (overlay ph) of
             NoneNone \<Rightarrow> Inl ValueError
           | Overlay (Some lat) (Some lon) date_str time_str address \<Rightarrow>
               (case extract_datetime_from_text_overlay re sp (overlay ph) of
                  (Some dt, True) \<Rightarrow>
                    if date_of dt = today
                    then Inr (Some lat, Some lon, Some dt, address, Some ''OCR+Injected'')
                    else Inr (None, None, None, address, Some ''DATE_MISMATCH'')
                | _ \<Rightarrow> Inr (None, None, None, address, Some ''TIME_PARSE_FAILED''))
           | Overlay _ _ _ _ _ \<Rightarrow> Inr (None, None, None, None, None)))"

subsection \<open>Stored records (\<^verbatim>\<open>models/\<close>)\<close>

text \<open>
  The columns of the tables, with a prefix where two tables share a column name. A
  nullable column is an option. Column defaults are applied: a new attendance row has
  status \<^verbatim>\<open>Absent\<close> and \<^verbatim>\<open>pending_approval\<close> false. Of the sites, employees and
  admins only the columns the attendance code reads are kept; \<open>admin_id\<close> is the primary
  key \<^verbatim>\<open>id\<close> of \<^verbatim>\<open>Admin\<close>, which has no column \<^verbatim>\<open>is_active\<close>.
\<close>

record site =
  site_id :: nat
  site_name :: string
  site_latitude :: real
  site_longitude :: real
  site_branch_id :: nat

record employee =
  emp_id :: nat
  emp_name :: string
  emp_photo :: "string option"
  emp_branch_id :: "nat option"

record admin =
  admin_id :: nat
  admin_email :: string

record attendance =
  att_id :: nat
  att_employee_id :: nat
  att_date :: date
  in_time :: "datetime option"
  in_photo :: "string option"
  in_latitude :: "real option"
  in_longitude :: "real option"
  in_address :: "string option"
  out_time :: "datetime option"
  out_photo :: "string option"
  out_latitude :: "real option"
  out_longitude :: "real option"
  out_address :: "string option"
  att_site_id :: "nat option"
  att_status :: string
  working_hours :: "string option"
  pending_approval :: bool
  pending_type :: "string option"
  pending_latitude :: "real option"
  pending_longitude :: "real option"
  pending_address :: "string option"
  pending_time :: "datetime option"
  pending_photo :: "string option"

record approval =
  apr_id :: nat
  apr_employee_id :: nat
  apr_attendance_id :: "nat option"
  apr_date :: date
  apr_attendance_type :: string
  apr_photo :: "string option"
  apr_latitude :: real
  apr_longitude :: real
  apr_address :: "string option"
  apr_time :: datetime
  apr_status :: string
  apr_remarks :: "string option"
  apr_created_at :: "datetime option"
  apr_approved_at :: "datetime option"
  apr_approved_by :: "nat option"

text \<open>
  The committed database: the tables in row order, and the next primary key of the two
  tables the code inserts into. \<^verbatim>\<open>query.first()\<close> is the first row of the table that
  satisfies the filter.
\<close>

record db =
  attendances :: "attendance list"
  approvals :: "approval list"
  sites :: "site list"
  admins :: "admin list"
  next_attendance_id :: nat
  next_approval_id :: nat

fun update_first :: "('a \<Rightarrow> bool) \<Rightarrow> ('a \<Rightarrow> 'a) \<Rightarrow> 'a list \<Rightarrow> 'a list" where
  "update_first P f [] = []"
| "update_first P f (x # xs) = (if P x then f x # xs else x # update_first P f xs)"

fun delete_first :: "('a \<Rightarrow> bool) \<Rightarrow> 'a list \<Rightarrow> 'a list" where
  "delete_first P [] = []"
| "delete_first P (x # xs) = (if P x then xs else x # delete_first P xs)"

text \<open>\<^verbatim>\<open>Attendance(employee_id=.., date=..)\<close>, as the row reads once it is inserted.\<close>

definition new_attendance :: "nat \<Rightarrow> nat \<Rightarrow> date \<Rightarrow> attendance" where
  "new_attendance i e d =
     \<lparr> att_id = i, att_employee_id = e, att_date = d,
       in_time = None, in_photo = None, in_latitude = None, in_longitude = None,
       in_address = None,
       out_time = None, out_photo = None, out_latitude = None, out_longitude = None,
       out_address = None,
       att_site_id = None, att_status = ''Absent'', working_hours = None,
       pending_approval = False, pending_type = None, pending_latitude = None,
       pending_longitude = None, pending_address = None, pending_time = None,
       pending_photo = None \<rparr>"

text \<open>
  The row the query \<^verbatim>\<open>filter_by(employee_id=e, date=d).first()\<close> returns, and a change
  to the row it returns or, when there is none, to a new row that is then inserted
  (\<^verbatim>\<open>if not attendance: attendance = Attendance(..); db.session.add(attendance)\<close>).
\<close>

definition is_for :: "nat \<Rightarrow> date \<Rightarrow> attendance \<Rightarrow> bool" where
  "is_for e d a = (att_employee_id a = e \<and> att_date a = d)"

definition get_or_create ::
  "nat \<Rightarrow> date \<Rightarrow> (attendance \<Rightarrow> attendance) \<Rightarrow> db \<Rightarrow> db" where
  "get_or_create e d f s =
     (case find (is_for e d) (attendances s) of
        Some a \<Rightarrow> s\<lparr>attendances := update_first (is_for e d) f (attendances s)\<rparr>
      | None \<Rightarrow>
          s\<lparr>attendances := attendances s @ [f (new_attendance (next_attendance_id s) e d)],
            next_attendance_id := Suc (next_attendance_id s)\<rparr>)"

text \<open>
  \<^verbatim>\<open>db.session.delete(row)\<close> of the first attendance row satisfying \<open>P\<close>. The relationship
  \<^verbatim>\<open>approvals\<close> has no delete cascade, so the session sets the \<^verbatim>\<open>attendance_id\<close> of the
  approvals of a deleted row to NULL.
\<close>

definition delete_attendance :: "(attendance \<Rightarrow> bool) \<Rightarrow> db \<Rightarrow> db" where
  "delete_attendance P s =
     (case find P (attendances s) of
        None \<Rightarrow> s
      | Some a \<Rightarrow>
          s\<lparr>attendances := delete_first P (attendances s),
            approvals := map (\<lambda>p. if apr_attendance_id p = Some (att_id a)
                                   then p\<lparr>apr_attendance_id := None\<rparr> else p)
                           (approvals s)\<rparr>)"

subsection \<open>Attendance helpers (\<^verbatim>\<open>employee_routes.py\<close>)\<close>

text \<open>
  \<^verbatim>\<open>geodesic(p, q).kilometers\<close> is the library's: a parameter, \<^const>\<open>None\<close> when it raises.
  The distance the proximity check returns starts as \<^verbatim>\<open>float('inf')\<close>.
\<close>

type_synonym geodesic = "real \<times> real \<Rightarrow> real \<times> real \<Rightarrow> real option"

datatype pyfloat = PosInf | Float real

definition below :: "real \<Rightarrow> pyfloat \<Rightarrow> bool" where
  "below d c = (case c of PosInf \<Rightarrow> True | Float x \<Rightarrow> d < x)"

text \<open>
  \<^verbatim>\<open>
  def is_within_site_range(emp_lat, emp_lon, sites, radius_km=2.0):
      closest_distance = float('inf')
      for site in sites:
          try:
              distance = geodesic((emp_lat, emp_lon), (site.latitude, site.longitude)).kilometers
              if distance < closest_distance:
                  closest_distance = distance
              if distance <= radius_km:
                  return True, site, distance
          except:
              continue
      return False, None, closest_distance
  \<close>
\<close>

fun sites_loop ::
  "geodesic \<Rightarrow> real \<Rightarrow> real \<Rightarrow> real \<Rightarrow> pyfloat \<Rightarrow> site list \<Rightarrow> bool \<times> site option \<times> pyfloat" where
  "sites_loop g emp_lat emp_lon radius_km closest_distance [] = (False, None, closest_distance)"
| "sites_loop g emp_lat emp_lon radius_km closest_distance (st # rest) =
     (case g (emp_lat, emp_lon) (site_latitude st, site_longitude st) of
        None \<Rightarrow> sites_loop g emp_lat emp_lon radius_km closest_distance rest
      | Some distance \<Rightarrow>
          if distance \<le> radius_km then (True, Some st, Float distance)
          else sites_loop g emp_lat emp_lon radius_km
                 (if below distance closest_distance then Float distance else closest_distance)
                 rest)"

definition is_within_site_range ::
  "geodesic \<Rightarrow> real \<Rightarrow> real \<Rightarrow> site list \<Rightarrow> real \<Rightarrow> bool \<times> site option \<times> pyfloat" where
  "is_within_site_range g emp_lat emp_lon sts radius_km =
     sites_loop g emp_lat emp_lon radius_km PosInf sts"

text \<open>
  \<^verbatim>\<open>calculate_working_hours\<close>: hours and minutes of \<^verbatim>\<open>out_time - in_time\<close>, by floor
  division of its seconds.
\<close>

definition calculate_working_hours :: "datetime option \<Rightarrow> datetime option \<Rightarrow> string" where
  "calculate_working_hours i out =
     (case (i, out) of
        (Some t_in, Some t_out) \<Rightarrow>
          (let duration = t_out - t_in;
               hours = duration div 3600000000;
               minutes = (duration mod 3600000000) div 60000000
           in show_int hours @ '':'' @ fmt_0d 2 minutes)
      | _ \<Rightarrow> ''0:00'')"

text \<open>
  \<^verbatim>\<open>determine_attendance_status\<close>: the times of day 07:45, 08:15 and 18:00 in
  microseconds.
\<close>

definition determine_attendance_status :: "datetime option \<Rightarrow> datetime option \<Rightarrow> string" where
  "determine_attendance_status i out =
     (if i = None \<and> out = None then ''Absent''
      else
        (let valid_in = (case i of None \<Rightarrow> False
                         | Some t \<Rightarrow> 27900000000 \<le> time_of t \<and> time_of t \<le> 29700000000);
             valid_out = (case out of None \<Rightarrow> False | Some t \<Rightarrow> 64800000000 \<le> time_of t)
         in if valid_in \<and> valid_out then ''Full Day''
            else if i \<noteq> None \<or> out \<noteq> None then ''Half Day''
            else ''Absent''))"

text \<open>
  The loop of \<^verbatim>\<open>cleanup_incomplete_attendance\<close> over the rows dated before today, on one
  row.
\<close>

definition finalize :: "attendance \<Rightarrow> attendance" where
  "finalize a =
     (if in_time a \<noteq> None \<and> out_time a = None
        then a\<lparr>att_status := ''Half Day'', working_hours := Some ''0:00''\<rparr>
      else if out_time a \<noteq> None \<and> in_time a = None
        then a\<lparr>att_status := ''Half Day'', working_hours := Some ''0:00''\<rparr>
      else if in_time a = None \<and> out_time a = None
        then a\<lparr>att_status := ''Absent'', working_hours := Some ''0:00''\<rparr>
      else a)"

text \<open>
  \<^verbatim>\<open>cleanup_incomplete_attendance(employee_id)\<close>; \<open>today\<close> is \<^verbatim>\<open>datetime.now().date()\<close>.
  After the loop it fetches the employee's first row dated today and deletes it when it
  has neither time, or when its \<^verbatim>\<open>in_time\<close> is of an earlier date; then it commits.
\<close>

definition cleanup_incomplete_attendance :: "date \<Rightarrow> nat \<Rightarrow> db \<Rightarrow> db" where
  "cleanup_incomplete_attendance today employee_id s =
     (let s1 = s\<lparr>attendances :=
                   map (\<lambda>a. if att_employee_id a = employee_id \<and> att_date a < today
                             then finalize a else a)
                     (attendances s)\<rparr>
      in case find (is_for employee_id today) (attendances s1) of
           None \<Rightarrow> s1
         | Some today_attendance \<Rightarrow>
             if in_time today_attendance = None \<and> out_time today_attendance = None
               then delete_attendance (is_for employee_id today) s1
             else
               (case in_time today_attendance of
                  Some t \<Rightarrow>
                    if date_of t < today then delete_attendance (is_for employee_id today) s1
                    else s1
                | None \<Rightarrow> s1))"

subsection \<open>Submission (\<^verbatim>\<open>process_attendance\<close>)\<close>

text \<open>
  The uploaded file: its name and what the resolver reads from the temporary copy. A
  \<^verbatim>\<open>FileStorage\<close> with an empty file name is falsy.
\<close>

record upload =
  filename :: string
  content :: photo

text \<open>
  What a request gets from outside the repository and from the clock: the library
  functions, the value of \<^verbatim>\<open>verify_face_match\<close> on the upload, the reverse geocoder's
  answer, and each reading of the clock, in the order the code takes them.
\<close>

record env =
  env_re :: re_search
  env_strptime :: strptime
  env_geodesic :: geodesic
  env_face :: "bool \<times> string"
  env_address :: "real \<Rightarrow> real \<Rightarrow> string"
  now_resolver :: datetime
  now_date_check :: datetime
  now_upload :: datetime
  now_cleanup :: datetime
  utcnow_insert :: datetime

text \<open>
  The messages, one constructor for each text of the source, with the values the text
  interpolates: \<^verbatim>\<open>Please upload a photo.\<close>; \<^verbatim>\<open>Please upload a valid image file ..\<close>;
  \<^verbatim>\<open>Face verification failed: ..\<close>; \<^verbatim>\<open>Failed to extract GPS information from photo. ..\<close>;
  \<^verbatim>\<open>Failed to extract date/time from photo. ..\<close>; \<^verbatim>\<open>Photo date does not match today's date. ..\<close>;
  \<^verbatim>\<open>Time validation failed: ..\<close> (with the difference, here in microseconds);
  \<^verbatim>\<open>.. attendance marked successfully! ..\<close> (type, address, photo time, site name,
  distance); \<^verbatim>\<open>Attendance request sent for admin approval. ..\<close> (address, time, distance);
  \<^verbatim>\<open>Failed to send approval request to admin. Please contact support.\<close>;
  \<^verbatim>\<open>You must mark IN attendance before marking OUT attendance.\<close>
\<close>

datatype message =
  PleaseUpload
  | InvalidImageFile
  | FaceVerificationFailed string
  | GpsExtractionFailed
  | DateTimeExtractionFailed
  | PhotoDateMismatch
  | TimeValidationFailed int
  | MarkedSuccessfully string string datetime string pyfloat
  | SentForApproval string datetime pyfloat
  | FailedToNotifyAdmin
  | MustMarkInFirst

definition py_lower :: "string \<Rightarrow> string" where
  "py_lower s =
     map (\<lambda>c. let n = (of_char c :: nat) in if 65 \<le> n \<and> n \<le> 90 then char_of (n + 32) else c) s"

definition endswith :: "string \<Rightarrow> string \<Rightarrow> bool" where
  "endswith s suf = (length suf \<le> length s \<and> drop (length s - length suf) s = suf)"

text \<open>
  Steps 1 to 4 of \<^verbatim>\<open>process_attendance\<close>, which read no stored state: the checks of the
  upload, of the face, of the evidence, of the photo's date and of the time skew. The
  result is the rejection message, the exception that leaves the function, or the
  coordinates, the address and the photo time that the later steps use.
\<close>

datatype checked =
  Rejected message
  | Raised error
  | Evidence real real string datetime

definition check_submission :: "env \<Rightarrow> upload option \<Rightarrow> checked" where
  "check_submission ev photo_file =
     (case photo_file of
        None \<Rightarrow> Rejected PleaseUpload
      | Some up \<Rightarrow>
          if filename up = [] then Rejected PleaseUpload
          else if \<not> (endswith (py_lower (filename up)) ''.jpg''
                      \<or> endswith (py_lower (filename up)) ''.jpeg''
                      \<or> endswith (py_lower (filename up)) ''.png'')
            then Rejected InvalidImageFile
          else if \<not> fst (env_face ev) then Rejected (FaceVerificationFailed (snd (env_face ev)))
          else
            (case extract_gps_and_datetime (env_re ev) (env_strptime ev)
                    (date_of (now_resolver ev)) (content up) of
               Inl e \<Rightarrow> Raised e
             | Inr (Some lat, Some lon, extracted_datetime, _, _) \<Rightarrow>
                 (case extracted_datetime of
                    None \<Rightarrow> Rejected DateTimeExtractionFailed
                  | Some current_time \<Rightarrow>
                      if date_of current_time \<noteq> date_of (now_date_check ev)
                        then Rejected PhotoDateMismatch
                      else if 600000000 < \<bar>current_time - now_upload ev\<bar>
                        then Rejected (TimeValidationFailed \<bar>current_time - now_upload ev\<bar>)
                      else Evidence lat lon (env_address ev lat lon) current_time)
             | Inr _ \<Rightarrow> Rejected GpsExtractionFailed))"

text \<open>
  \<^verbatim>\<open>send_admin_approval_email\<close>. Its whole body is a \<^verbatim>\<open>try\<close> whose handler returns
  \<^verbatim>\<open>False\<close>:
  \<^verbatim>\<open>
  try:
      mail = Mail(current_app)
      admins = Admin.query.filter_by(is_active=True).all()
      admin_emails = [admin.email for admin in admins]
      if not admin_emails:
          return False
      approval_link = url_for('admin.approve_attendance', employee_id=employee.id, ...)
      ...
      mail.send(msg)
      return True
  except Exception as e:
      return False
  \<close>
  The model \<^verbatim>\<open>Admin\<close> of \<^verbatim>\<open>models/admin.py\<close> declares no column \<^verbatim>\<open>is_active\<close>, so the
  query of the second line raises on every database, inside the \<^verbatim>\<open>try\<close>; the lines after
  it, where the link to the route \<^verbatim>\<open>/attendance/approve/<int:approval_id>\<close> is built
  without an \<^verbatim>\<open>approval_id\<close>, are never reached. The function returns \<^verbatim>\<open>False\<close> on every
  input.
\<close>

definition send_admin_approval_email :: "db \<Rightarrow> bool" where
  "send_admin_approval_email s = False"

text \<open>The writes of step 6, in range (\<open>mark\<close>) and out of range (\<open>set_pending\<close>).\<close>

definition mark ::
  "string \<Rightarrow> datetime \<Rightarrow> real \<Rightarrow> real \<Rightarrow> string \<Rightarrow> site \<Rightarrow> attendance \<Rightarrow> attendance" where
  "mark attendance_type current_time lat lon address matched_site a =
     (let a1 = (if attendance_type = ''in''
                then a\<lparr>in_time := Some current_time, in_latitude := Some lat,
                       in_longitude := Some lon, in_address := Some address,
                       att_site_id := Some (site_id matched_site)\<rparr>
                else a\<lparr>out_time := Some current_time, out_latitude := Some lat,
                       out_longitude := Some lon, out_address := Some address\<rparr>)
      in a1\<lparr>att_status := determine_attendance_status (in_time a1) (out_time a1),
             working_hours := Some (calculate_working_hours (in_time a1) (out_time a1))\<rparr>)"

definition set_pending ::
  "string \<Rightarrow> datetime \<Rightarrow> real \<Rightarrow> real \<Rightarrow> string \<Rightarrow> attendance \<Rightarrow> attendance" where
  "set_pending attendance_type current_time lat lon address a =
     a\<lparr>pending_approval := True, pending_type := Some attendance_type,
       pending_latitude := Some lat, pending_longitude := Some lon,
       pending_address := Some address, pending_time := Some current_time,
       pending_photo := None\<rparr>"

text \<open>
  The approval row of an out-of-range submission. \<open>attendance\<close> is the row the query of
  step 5 returned: a row created in this request has no primary key yet when the approval
  is built, so its \<^verbatim>\<open>attendance_id\<close> is NULL.
\<close>

definition new_approval ::
  "env \<Rightarrow> nat \<Rightarrow> employee \<Rightarrow> attendance option \<Rightarrow> date \<Rightarrow> string \<Rightarrow> real \<Rightarrow> real \<Rightarrow> string
   \<Rightarrow> datetime \<Rightarrow> approval" where
  "new_approval ev i emp attendance today attendance_type lat lon address current_time =
     \<lparr> apr_id = i, apr_employee_id = emp_id emp,
       apr_attendance_id = map_option att_id attendance,
       apr_date = today, apr_attendance_type = attendance_type, apr_photo = None,
       apr_latitude = lat, apr_longitude = lon, apr_address = Some address,
       apr_time = current_time, apr_status = ''Pending'', apr_remarks = None,
       apr_created_at = Some (utcnow_insert ev), apr_approved_at = None,
       apr_approved_by = None \<rparr>"

text \<open>
  \<^verbatim>\<open>process_attendance(emp, photo_file, attendance_type)\<close> on the database \<open>s\<close>: the value
  returned (or the exception) and the database as committed. A rejection of steps 1 to 4
  and an exception there leave the database as it was. Once the proximity check says in
  range, \<^verbatim>\<open>matched_site.id\<close> would raise on \<^verbatim>\<open>None\<close>, after the sweep has committed.
\<close>

definition process_attendance ::
  "env \<Rightarrow> employee \<Rightarrow> upload option \<Rightarrow> string \<Rightarrow> db \<Rightarrow> (error + bool \<times> message) \<times> db" where
  "process_attendance ev emp photo_file attendance_type s =
     (case check_submission ev photo_file of
        Rejected m \<Rightarrow> (Inr (False, m), s)
      | Raised e \<Rightarrow> (Inl e, s)
      | Evidence lat lon address current_time \<Rightarrow>
          (let employee_sites =
                 filter (\<lambda>st. Some (site_branch_id st) = emp_branch_id emp) (sites s);
               today = date_of current_time;
               s1 = cleanup_incomplete_attendance (date_of (now_cleanup ev)) (emp_id emp) s;
               attendance = find (is_for (emp_id emp) today) (attendances s1)
           in case is_within_site_range (env_geodesic ev) lat lon employee_sites 2 of
                (within_range, matched_site, distance) \<Rightarrow>
                  if within_range then
                    (case matched_site of
                       None \<Rightarrow> (Inl AttributeError, s1)
                     | Some st \<Rightarrow>
                         (Inr (True, MarkedSuccessfully attendance_type address current_time
                                       (site_name st) distance),
                          get_or_create (emp_id emp) today
                            (mark attendance_type current_time lat lon address st) s1))
                  else
                    (let s2 = get_or_create (emp_id emp) today
                                (set_pending attendance_type current_time lat lon address) s1;
                         s3 = s2\<lparr>approvals := approvals s2 @
                                     [new_approval ev (next_approval_id s2) emp attendance today
                                        attendance_type lat lon address current_time],
                                   next_approval_id := Suc (next_approval_id s2)\<rparr>
                     in if send_admin_approval_email s3
                        then (Inr (True, SentForApproval address current_time distance), s3)
                        else (Inr (False, FailedToNotifyAdmin), s3))))"

subsection \<open>Routes\<close>

text \<open>What a handler leaves for the user: the flashed category and message.\<close>

datatype flash = Flash string message

definition flash_result :: "(error + bool \<times> message) \<times> db \<Rightarrow> (error + flash) \<times> db" where
  "flash_result r =
     (case r of
        (Inl e, s) \<Rightarrow> (Inl e, s)
      | (Inr (success, m), s) \<Rightarrow>
          (Inr (Flash (if success then ''success'' else ''danger'') m), s))"

definition attendance_in :: "env \<Rightarrow> employee \<Rightarrow> upload option \<Rightarrow> db \<Rightarrow> (error + flash) \<times> db" where
  "attendance_in ev emp photo_file s = flash_result (process_attendance ev emp photo_file ''in'' s)"

text \<open>
  \<^verbatim>\<open>attendance_out\<close>; \<open>now\<close> is the handler's own reading of the clock, before any
  processing.
\<close>

definition attendance_out ::
  "env \<Rightarrow> datetime \<Rightarrow> employee \<Rightarrow> upload option \<Rightarrow> db \<Rightarrow> (error + flash) \<times> db" where
  "attendance_out ev now emp photo_file s =
     (let today = date_of now;
          attendance = find (is_for (emp_id emp) today) (attendances s)
      in if attendance = None \<or> in_time (the attendance) = None
         then (Inr (Flash ''danger'' MustMarkInFirst), s)
         else flash_result (process_attendance ev emp photo_file ''out'' s))"

subsection \<open>Admin decisions (\<^verbatim>\<open>admin_routes.py\<close>)\<close>

text \<open>The seven assignments that clear the pending side channel.\<close>

definition clear_pending :: "attendance \<Rightarrow> attendance" where
  "clear_pending a =
     a\<lparr>pending_approval := False, pending_type := None, pending_latitude := None,
       pending_longitude := None, pending_address := None, pending_time := None,
       pending_photo := None\<rparr>"

definition decide ::
  "string \<Rightarrow> datetime \<Rightarrow> nat \<Rightarrow> string \<Rightarrow> approval \<Rightarrow> approval" where
  "decide st utcnow adm remarks p =
     p\<lparr>apr_status := st, apr_approved_at := Some utcnow, apr_approved_by := Some adm,
       apr_remarks := Some remarks\<rparr>"

text \<open>The writes of an approval into the attendance row.\<close>

definition apply_approval :: "approval \<Rightarrow> attendance \<Rightarrow> attendance" where
  "apply_approval p a =
     (let a1 = (if apr_attendance_type p = ''in''
                then a\<lparr>in_time := Some (apr_time p), in_photo := apr_photo p,
                       in_latitude := Some (apr_latitude p),
                       in_longitude := Some (apr_longitude p), in_address := apr_address p\<rparr>
                else a\<lparr>out_time := Some (apr_time p), out_photo := apr_photo p,
                       out_latitude := Some (apr_latitude p),
                       out_longitude := Some (apr_longitude p), out_address := apr_address p\<rparr>);
          a2 = clear_pending a1
      in a2\<lparr>att_status := determine_attendance_status (in_time a2) (out_time a2),
             working_hours := Some (calculate_working_hours (in_time a2) (out_time a2))\<rparr>)"

text \<open>
  \<^verbatim>\<open>approve_attendance(approval_id)\<close> and \<^verbatim>\<open>reject_attendance(approval_id)\<close>. \<open>utcnow\<close> is
  \<^verbatim>\<open>datetime.utcnow()\<close>, \<open>session_admin\<close> is \<^verbatim>\<open>session["admin_id"]\<close>, \<open>remarks\<close> is the
  form field (absent: \<^const>\<open>None\<close>). An unknown approval is a 404; an unknown admin makes
  \<^verbatim>\<open>admin.id\<close> raise. In both cases nothing is committed. Otherwise the handler
  commits and flashes its success text.
\<close>

definition approve_attendance ::
  "datetime \<Rightarrow> nat \<Rightarrow> string option \<Rightarrow> nat \<Rightarrow> db \<Rightarrow> (error + string) \<times> db" where
  "approve_attendance utcnow session_admin remarks approval_id s =
     (case find (\<lambda>p. apr_id p = approval_id) (approvals s) of
        None \<Rightarrow> (Inl NotFound, s)
      | Some approval \<Rightarrow>
          (case find (\<lambda>a. admin_id a = session_admin) (admins s) of
             None \<Rightarrow> (Inl AttributeError, s)
           | Some adm \<Rightarrow>
               (let approval' = decide ''Approved'' utcnow (admin_id adm)
                                  (case remarks of None \<Rightarrow> [] | Some r \<Rightarrow> r) approval;
                    s1 = s\<lparr>approvals :=
                             update_first (\<lambda>p. apr_id p = approval_id) (\<lambda>p. approval')
                               (approvals s)\<rparr>
                in (Inr ''Attendance approved successfully!'',
                    get_or_create (apr_employee_id approval) (apr_date approval)
                      (apply_approval approval') s1))))"

definition reject_attendance ::
  "datetime \<Rightarrow> nat \<Rightarrow> string option \<Rightarrow> nat \<Rightarrow> db \<Rightarrow> (error + string) \<times> db" where
  "reject_attendance utcnow session_admin remarks approval_id s =
     (case find (\<lambda>p. apr_id p = approval_id) (approvals s) of
        None \<Rightarrow> (Inl NotFound, s)
      | Some approval \<Rightarrow>
          (case find (\<lambda>a. admin_id a = session_admin) (admins s) of
             None \<Rightarrow> (Inl AttributeError, s)
           | Some adm \<Rightarrow>
               (let approval' = decide ''Rejected'' utcnow (admin_id adm)
                                  (case remarks of None \<Rightarrow> ''Rejected by admin'' | Some r \<Rightarrow> r)
                                  approval;
                    s1 = s\<lparr>approvals :=
                             update_first (\<lambda>p. apr_id p = approval_id) (\<lambda>p. approval')
                               (approvals s)\<rparr>
                in (Inr ''Attendance rejected successfully!'',
                    s1\<lparr>attendances :=
                         update_first (is_for (apr_employee_id approval) (apr_date approval))
                           clear_pending (attendances s1)\<rparr>))))"

subsection \<open>Vocabulary of the properties\<close>

text \<open>
  The pending side channel of an attendance row is its flag, its direction and the
  snapshot of coordinates, address and time. The column \<^verbatim>\<open>pending_photo\<close> is no part of
  it: every assignment to it in the source is \<^verbatim>\<open>None\<close> (photos are not stored). The two
  shapes of the side channel: cleared (the flag false, direction and snapshot NULL), and
  populated (the flag true, the direction \<^verbatim>\<open>in\<close> or \<^verbatim>\<open>out\<close>, coordinates, address and time
  all present); in both the photo column is NULL.
\<close>

definition pending_cleared :: "attendance \<Rightarrow> bool" where
  "pending_cleared a =
     (pending_approval a = False \<and> pending_type a = None \<and> pending_latitude a = None
      \<and> pending_longitude a = None \<and> pending_address a = None \<and> pending_time a = None
      \<and> pending_photo a = None)"

definition pending_populated :: "attendance \<Rightarrow> bool" where
  "pending_populated a =
     (pending_approval a = True \<and> (pending_type a = Some ''in'' \<or> pending_type a = Some ''out'')
      \<and> pending_latitude a \<noteq> None \<and> pending_longitude a \<noteq> None
      \<and> pending_address a \<noteq> None \<and> pending_time a \<noteq> None \<and> pending_photo a = None)"

subsection \<open>Sample inputs\<close>

text \<open>
  Four OCR texts, each a decimal coordinate pair, and the table of what \<^verbatim>\<open>re.search\<close>
  returns on them: the decimal pattern matches with the two numbers as its groups, no
  other pattern of the source matches any of the four. Then a point on the equator, a
  site one degree east of it with the geodesic distance between the two (111.319 km), an
  employee of the site's branch, an upload geotagged at the point and dated at the
  sample time, and a database with the site, one admin and no attendance yet.
\<close>

definition sample_texts :: ocr_texts where
  "sample_texts = \<lparr> cropped = ''19.0, 74.0'', full = ''18.5, 73.8'',
                     cropped_th = ''21.5, 76.5'', full_th = ''20.5, 75.5'' \<rparr>"

definition sample_search :: re_search where
  "sample_search p text =
     (if p = GpsDecimal \<and> text = ''18.5, 73.8''
        then Some \<lparr>group0 = ''18.5, 73.8'', groups = [Some ''18.5'', Some ''73.8'']\<rparr>
      else if p = GpsDecimal \<and> text = ''19.0, 74.0''
        then Some \<lparr>group0 = ''19.0, 74.0'', groups = [Some ''19.0'', Some ''74.0'']\<rparr>
      else if p = GpsDecimal \<and> text = ''20.5, 75.5''
        then Some \<lparr>group0 = ''20.5, 75.5'', groups = [Some ''20.5'', Some ''75.5'']\<rparr>
      else if p = GpsDecimal \<and> text = ''21.5, 76.5''
        then Some \<lparr>group0 = ''21.5, 76.5'', groups = [Some ''21.5'', Some ''76.5'']\<rparr>
      else None)"

definition sample_geodesic :: geodesic where
  "sample_geodesic p q = (if p = (0, 0) \<and> q = (0, 1) then Some (111319 / 1000) else None)"

definition sample_site :: site where
  "sample_site = \<lparr> site_id = 1, site_name = ''Depot'', site_latitude = 0, site_longitude = 1,
                    site_branch_id = 1 \<rparr>"

definition sample_employee :: employee where
  "sample_employee = \<lparr> emp_id = 7, emp_name = ''Asha'', emp_photo = Some ''asha.jpg'',
                        emp_branch_id = Some 1 \<rparr>"

definition sample_now :: datetime where
  "sample_now = 739000 * 86400000000 + 32400000000"

definition sample_upload :: upload where
  "sample_upload =
     \<lparr> filename = ''photo.JPG'',
       content = \<lparr> exif = Some \<lparr> GPSLatitudeRef = Some ''N'',
                                    GPSLatitude = Some [(0, 1), (0, 1), (0, 100)],
                                    GPSLongitudeRef = Some ''E'',
                                    GPSLongitude = Some [(0, 1), (0, 1), (0, 100)] \<rparr>,
                   exif_datetime = Some sample_now, overlay = None \<rparr> \<rparr>"

definition sample_env :: env where
  "sample_env =
     \<lparr> env_re = sample_search, env_strptime = (\<lambda>s fmt. None), env_geodesic = sample_geodesic,
       env_face = (True, ''Face verified successfully''),
       env_address = (\<lambda>lat lon. ''Null Island''),
       now_resolver = sample_now, now_date_check = sample_now, now_upload = sample_now,
       now_cleanup = sample_now, utcnow_insert = sample_now \<rparr>"

definition sample_db :: db where
  "sample_db =
     \<lparr> attendances = [], approvals = [], sites = [sample_site],
       admins = [\<lparr> admin_id = 1, admin_email = ''admin@example.org'' \<rparr>],
       next_attendance_id = 1, next_approval_id = 1 \<rparr>"

text \<open>
  The database after the sample employee's out-of-range check-in, the approval row that
  check-in creates, the admin of the sample database, a half-open row of the day before
  the sample day in a database of its own, and a database where the sample employee has
  checked in today.
\<close>

definition sample_pending_db :: db where
  "sample_pending_db =
     snd (process_attendance sample_env sample_employee (Some sample_upload) ''in'' sample_db)"

definition sample_approval :: approval where
  "sample_approval =
     new_approval sample_env 1 sample_employee None (date_of sample_now) ''in'' 0 0
       ''Null Island'' sample_now"

definition sample_admin :: admin where
  "sample_admin = \<lparr> admin_id = 1, admin_email = ''admin@example.org'' \<rparr>"

definition sample_half_open :: attendance where
  "sample_half_open =
     (new_attendance 1 7 738999)\<lparr>in_time := Some (738999 * 86400000000 + 32400000000)\<rparr>"

definition sample_past_db :: db where
  "sample_past_db = sample_db\<lparr>attendances := [sample_half_open], next_attendance_id := 2\<rparr>"

definition sample_marked_db :: db where
  "sample_marked_db =
     sample_db\<lparr>attendances := [(new_attendance 1 7 739000)\<lparr>in_time := Some sample_now\<rparr>],
               next_attendance_id := 2\<rparr>"

section \<open>Properties\<close>

subsection \<open>DMS round trip\<close>

lemma py_round_close: "\<bar>of_int (py_round x) - x\<bar> \<le> 1 / 2"
proof -
  define f where "f = \<lfloor>x\<rfloor>"
  define r where "r = x - of_int f"
  have r: "0 \<le> r" "r < 1" unfolding r_def f_def by linarith+
  have p: "py_round x = (if r < 1 / 2 then f else if 1 / 2 < r then f + 1
                         else if even f then f else f + 1)"
    by (simp add: py_round_def Let_def f_def r_def)
  have k: "\<bar>of_int k - x\<bar> \<le> 1 / 2"
    if "k = f \<and> r \<le> 1 / 2 \<or> k = f + 1 \<and> 1 / 2 \<le> r" for k
  proof -
    have "of_int k - x = - r \<and> r \<le> 1 / 2 \<or> of_int k - x = 1 - r \<and> 1 / 2 \<le> r"
      using that unfolding r_def by auto
    then show ?thesis using r by linarith
  qed
  have "py_round x = f \<and> r \<le> 1 / 2 \<or> py_round x = f + 1 \<and> 1 / 2 \<le> r"
    unfolding p by auto
  then show ?thesis by (rule k)
qed

lemma dms_roundtrip_abs:
  assumes "rational_to_float (deg_to_dms_rational x) = Some y"
  shows "\<bar>y - \<bar>x\<bar>\<bar> \<le> 1 / 720000"
proof -
  define a where "a = \<bar>x\<bar>"
  define d where "d = py_trunc a"
  define m where "m = py_trunc ((a - of_int d) * 60)"
  define X where "X = (a - of_int d - of_int m / 60) * 3600 * 100"
  define e where "e = of_int (py_round X) - X"
  have y: "y = of_int d + of_int m / 60 + of_int (py_round X) / 100 / 3600"
    using assms
    by (simp add: deg_to_dms_rational_def Let_def a_def d_def m_def X_def)
  have ya: "y - a = e / 360000"
    unfolding y X_def e_def by (simp add: field_simps)
  have e: "\<bar>e\<bar> \<le> 1 / 2"
    unfolding e_def by (rule py_round_close)
  have "\<bar>y - a\<bar> = \<bar>e\<bar> / 360000" unfolding ya by simp
  then have "\<bar>y - a\<bar> \<le> 1 / 720000" using e by linarith
  then show ?thesis by (simp add: a_def)
qed

lemma dms_defined: "\<exists>y. rational_to_float (deg_to_dms_rational x) = Some y"
  by (simp add: deg_to_dms_rational_def Let_def)

text \<open>
  C9. For a latitude in [-90, 90] and a longitude in [-180, 180], writing the pair with
  \<open>inject_gps_into_exif\<close> (DMS rationals, hemisphere in the reference tags) and
  reading it back with \<open>extract_gps_from_exif\<close> gives a pair, each coordinate within
  1e-4 degrees of the original.
\<close>

theorem dms_exif_roundtrip:
  assumes "- 90 \<le> lat" and "lat \<le> 90" and "- 180 \<le> lon" and "lon \<le> 180"
  shows "\<exists>lat' lon'.
           extract_gps_from_exif (Some (inject_gps_into_exif lat lon)) = (Some lat', Some lon')
           \<and> \<bar>lat' - lat\<bar> < 1 / 10000 \<and> \<bar>lon' - lon\<bar> < 1 / 10000"
proof -
  obtain y1 where y1: "rational_to_float (deg_to_dms_rational lat) = Some y1"
    using dms_defined by blast
  obtain y2 where y2: "rational_to_float (deg_to_dms_rational lon) = Some y2"
    using dms_defined by blast
  have b1: "\<bar>y1 - \<bar>lat\<bar>\<bar> \<le> 1 / 720000" using y1 by (rule dms_roundtrip_abs)
  have b2: "\<bar>y2 - \<bar>lon\<bar>\<bar> \<le> 1 / 720000" using y2 by (rule dms_roundtrip_abs)
  have e: "extract_gps_from_exif (Some (inject_gps_into_exif lat lon)) =
             (Some (if 0 \<le> lat then y1 else - y1), Some (if 0 \<le> lon then y2 else - y2))"
    by (simp add: extract_gps_from_exif_def inject_gps_into_exif_def y1 y2)
  have "\<bar>(if 0 \<le> lat then y1 else - y1) - lat\<bar> < 1 / 10000"
    using b1 by (simp split: if_splits add: abs_if)
  moreover have "\<bar>(if 0 \<le> lon then y2 else - y2) - lon\<bar> < 1 / 10000"
    using b2 by (simp split: if_splits add: abs_if)
  ultimately show ?thesis using e by blast
qed

theorem dms_exif_roundtrip_witness:
  "- 90 \<le> (37 / 2 :: real) \<and> (37 / 2 :: real) \<le> 90
   \<and> - 180 \<le> (- 295 / 4 :: real) \<and> (- 295 / 4 :: real) \<le> 180
   \<and> (\<exists>lat' lon'.
         extract_gps_from_exif (Some (inject_gps_into_exif (37 / 2) (- 295 / 4)))
           = (Some lat', Some lon')
         \<and> \<bar>lat' - 37 / 2\<bar> < 1 / 10000 \<and> \<bar>lon' - (- 295 / 4)\<bar> < 1 / 10000)"
  using dms_exif_roundtrip [of "37 / 2" "- 295 / 4"] by simp

subsection \<open>Overlay extraction: which variant decides\<close>

lemma last_override:
  "foldl (\<lambda>acc x. case h x of None \<Rightarrow> acc | Some v \<Rightarrow> Some v) a xs =
     (case last (None # filter (\<lambda>y. y \<noteq> None) (map h xs)) of None \<Rightarrow> a | Some v \<Rightarrow> Some v)"
  by (induction xs rule: rev_induct) (auto split: option.splits)

lemma scan_date:
  "found_date (foldl (scan_text re) f xs) =
     foldl (\<lambda>acc x. case date_loop re x date_patterns of None \<Rightarrow> acc | Some v \<Rightarrow> Some v)
       (found_date f) xs"
  by (induction xs arbitrary: f) (auto simp: scan_text_def Let_def split: option.splits)

lemma scan_time:
  "found_time (foldl (scan_text re) f xs) =
     foldl (\<lambda>acc x. case time_loop re x time_patterns of None \<Rightarrow> acc | Some v \<Rightarrow> Some v)
       (found_time f) xs"
  by (induction xs arbitrary: f) (auto simp: scan_text_def Let_def split: option.splits)

lemma scan_address:
  "found_address (foldl (scan_text re) f xs) =
     foldl (\<lambda>acc x. case map_option group0 (re AddressPattern x) of
                       None \<Rightarrow> acc | Some v \<Rightarrow> Some v)
       (found_address f) xs"
  by (induction xs arbitrary: f) (auto simp: scan_text_def Let_def split: option.splits)

lemma scan_gps:
  "(found_lat f = None \<longleftrightarrow> found_lon f = None) \<Longrightarrow>
   found_lat (foldl (scan_text re) f xs) =
     map_option fst
       (foldl (\<lambda>acc x. case gps_loop re x gps_patterns of None \<Rightarrow> acc | Some v \<Rightarrow> Some v)
          (case (found_lat f, found_lon f) of (Some a, Some b) \<Rightarrow> Some (a, b) | _ \<Rightarrow> None) xs)
   \<and> found_lon (foldl (scan_text re) f xs) =
     map_option snd
       (foldl (\<lambda>acc x. case gps_loop re x gps_patterns of None \<Rightarrow> acc | Some v \<Rightarrow> Some v)
          (case (found_lat f, found_lon f) of (Some a, Some b) \<Rightarrow> Some (a, b) | _ \<Rightarrow> None) xs)"
proof (induction xs arbitrary: f)
  case Nil
  then show ?case by (auto split: option.splits)
next
  case (Cons x xs)
  have "(found_lat (scan_text re f x) = None) = (found_lon (scan_text re f x) = None)"
    using Cons.prems by (auto simp: scan_text_def Let_def split: option.splits)
  from Cons.IH[OF this] show ?case
    using Cons.prems by (auto simp: scan_text_def Let_def split: option.splits)
qed

text \<open>
  C3, as the code has it. The variants are scanned in the order lower crop, full,
  thresholded lower crop, thresholded full, and no part of the scan stops at a first
  result: the coordinate pair returned is that of the last variant in this order whose
  patterns give a range-validated pair, and the date, the time and the address are each
  that of the last variant that gives one, independently of the pair.
  (\<open>last (None # filter (\<lambda>y. y \<noteq> None) rs)\<close> is the last entry of \<open>rs\<close> that is not
  \<^const>\<open>None\<close>, and \<^const>\<open>None\<close> when there is no such entry.)
\<close>

theorem overlay_last_variant_wins:
  "extract_gps_from_text_overlay re (Some t) =
     (let vs = [cropped t, full t, cropped_th t, full_th t];
          g = last (None # filter (\<lambda>y. y \<noteq> None) (map (\<lambda>x. gps_loop re x gps_patterns) vs))
      in Overlay (map_option fst g) (map_option snd g)
           (last (None # filter (\<lambda>y. y \<noteq> None) (map (\<lambda>x. date_loop re x date_patterns) vs)))
           (last (None # filter (\<lambda>y. y \<noteq> None) (map (\<lambda>x. time_loop re x time_patterns) vs)))
           (last (None # filter (\<lambda>y. y \<noteq> None)
                    (map (\<lambda>x. map_option group0 (re AddressPattern x)) vs))))"
proof -
  define vs where "vs = [cropped t, full t, cropped_th t, full_th t]"
  define f where "f = foldl (scan_text re) found_init vs"
  define g where
    "g = last (None # filter (\<lambda>y. y \<noteq> None) (map (\<lambda>x. gps_loop re x gps_patterns) vs))"
  have init: "found_lat found_init = None" "found_lon found_init = None"
    "found_date found_init = None" "found_time found_init = None"
    "found_address found_init = None"
    by (simp_all add: found_init_def)
  have d: "found_date f =
             last (None # filter (\<lambda>y. y \<noteq> None) (map (\<lambda>x. date_loop re x date_patterns) vs))"
    unfolding f_def scan_date last_override init by (simp split: option.splits)
  have tm: "found_time f =
              last (None # filter (\<lambda>y. y \<noteq> None) (map (\<lambda>x. time_loop re x time_patterns) vs))"
    unfolding f_def scan_time last_override init by (simp split: option.splits)
  have a: "found_address f =
             last (None # filter (\<lambda>y. y \<noteq> None)
                     (map (\<lambda>x. map_option group0 (re AddressPattern x)) vs))"
    unfolding f_def scan_address last_override init by (simp split: option.splits)
  have "found_lat f = map_option fst g \<and> found_lon f = map_option snd g"
    unfolding f_def g_def using scan_gps[of found_init re vs]
    unfolding last_override init by (simp split: option.splits)
  then have l: "found_lat f = map_option fst g" and lo: "found_lon f = map_option snd g"
    by simp_all
  have "extract_gps_from_text_overlay re (Some t) =
          (if found_lat f \<noteq> None \<and> found_lon f \<noteq> None
           then Overlay (found_lat f) (found_lon f) (found_date f) (found_time f)
                  (found_address f)
           else Overlay None None (found_date f) (found_time f) (found_address f))"
    by (simp add: extract_gps_from_text_overlay_def ocr_results_def f_def vs_def Let_def)
  also have "\<dots> = Overlay (map_option fst g) (map_option snd g) (found_date f) (found_time f)
                     (found_address f)"
    unfolding l lo by (cases g) auto
  finally show ?thesis
    unfolding d tm a g_def vs_def Let_def .
qed

text \<open>
  C3 as stated fails. On the sample texts the full image gives the valid pair
  (18.5, 73.8), and it is the first variant of the stated order (full, lower crop,
  thresholded full, thresholded lower crop); the lower crop, first in the order of the
  code, gives (19.0, 74.0). The pair returned is neither: it is (20.5, 75.5), from the
  thresholded full image, the last variant scanned.
\<close>

theorem overlay_first_variant_counterexample:
  "gps_loop sample_search (full sample_texts) gps_patterns = Some (37 / 2, 369 / 5)
   \<and> gps_loop sample_search (cropped sample_texts) gps_patterns = Some (19, 74)
   \<and> extract_gps_from_text_overlay sample_search (Some sample_texts)
       = Overlay (Some (41 / 2)) (Some (151 / 2)) None None None
   \<and> extract_gps_from_text_overlay sample_search (Some sample_texts)
       \<noteq> Overlay (Some (37 / 2)) (Some (369 / 5)) None None None"
  by code_simp

subsection \<open>Date disambiguation\<close>

text \<open>
  C5, as the code has it. For a match \<open>n1/n2/yyyy\<close> of the first date pattern with a
  four-digit year, the (day, month) is \<open>(n1, n2)\<close> when \<open>n1\<close> exceeds 12, \<open>(n2, n1)\<close> when
  \<open>n2\<close> exceeds 12 and \<open>n1\<close> is between 1 and 12, and \<open>(n1, n2)\<close> otherwise (both at
  most 12, or \<open>n1\<close> zero); the date stored is the day, the month and the year, zero
  padded.
\<close>

theorem date_disambiguation:
  assumes "py_int g1 = Some a" and "py_int g2 = Some b" and "py_int g3 = Some y"
    and "length g3 = 4"
  shows "day_month a b =
           (if 12 < a then (a, b) else if 12 < b \<and> 1 \<le> a then (b, a) else (a, b))
         \<and> parse_date_groups g1 g2 g3 =
             Some (format_date (fst (day_month a b)) (snd (day_month a b)) y)"
  using assms by (auto simp: day_month_def parse_date_groups_def split: prod.splits)

lemma format_date_examples:
  "format_date 15 3 2025 = ''15/03/2025''" "format_date 3 4 2025 = ''03/04/2025''"
  by code_simp+

theorem date_disambiguation_witness:
  "py_int ''15'' = Some 15 \<and> py_int ''03'' = Some 3 \<and> py_int ''04'' = Some 4
   \<and> py_int ''2025'' = Some 2025 \<and> length ''2025'' = 4
   \<and> day_month 15 3 = (15, 3)
   \<and> parse_date_groups ''15'' ''03'' ''2025'' = Some ''15/03/2025''
   \<and> day_month 3 15 = (15, 3)
   \<and> parse_date_groups ''03'' ''15'' ''2025'' = Some ''15/03/2025''
   \<and> day_month 3 4 = (3, 4)
   \<and> parse_date_groups ''03'' ''04'' ''2025'' = Some ''03/04/2025''"
proof -
  have i15: "py_int ''15'' = Some 15" by code_simp
  have i03: "py_int ''03'' = Some 3" by code_simp
  have i04: "py_int ''04'' = Some 4" by code_simp
  have iy: "py_int ''2025'' = Some 2025" by code_simp
  have len: "length ''2025'' = 4" by simp
  show ?thesis
    using date_disambiguation [OF i15 i03 iy len] date_disambiguation [OF i03 i15 iy len]
      date_disambiguation [OF i03 i04 iy len] i15 i03 i04 iy
    by (simp add: format_date_examples)
qed

text \<open>
  C5 as stated fails when the first component is zero: in \<open>00/15/2025\<close> the second
  component exceeds 12, yet the components are not swapped.
\<close>

theorem date_swap_counterexample:
  "py_int ''00'' = Some 0 \<and> py_int ''15'' = Some 15
   \<and> day_month 0 15 = (0, 15) \<and> day_month 0 15 \<noteq> (15, 0)
   \<and> parse_date_groups ''00'' ''15'' ''2025'' = Some ''00/15/2025''"
  by code_simp

subsection \<open>Evidence resolver: time parse failure\<close>

lemma try_formats_fail:
  "\<forall>fmt \<in> set fmts. sp s fmt = None \<Longrightarrow> try_formats sp s fmts = (None, False)"
  by (induction fmts) auto

text \<open>
  C4. When the image has no EXIF coordinates, the overlay extractor finds a coordinate
  pair, and no datetime can be rebuilt from the extracted strings (the date or the time
  is missing, or \<^verbatim>\<open>strptime\<close> rejects every format), the resolver returns latitude,
  longitude and timestamp all \<^verbatim>\<open>None\<close> with the method \<^verbatim>\<open>TIME_PARSE_FAILED\<close>.
\<close>

theorem time_parse_failed:
  assumes "extract_gps_from_exif (exif ph) = (None, None)"
    and "extract_gps_from_text_overlay re (overlay ph)
           = Overlay (Some lat) (Some lon) date_str time_str address"
    and "\<not> truthy date_str \<or> \<not> truthy time_str
         \<or> (\<forall>fmt \<in> set datetime_formats.
               sp (the date_str @ '' '' @ py_strip (replace_double_space (py_upper (the time_str))))
                  fmt = None)"
  shows "extract_gps_and_datetime re sp today ph
           = Inr (None, None, None, address, Some ''TIME_PARSE_FAILED'')"
proof -
  have "extract_datetime_from_text_overlay re sp (overlay ph) = (None, False)"
    using assms(2,3)
    by (auto simp: extract_datetime_from_text_overlay_def Let_def try_formats_fail)
  then show ?thesis
    using assms(1,2) by (simp add: extract_gps_and_datetime_def)
qed

theorem time_parse_failed_witness:
  "extract_gps_from_exif (exif \<lparr>exif = None, exif_datetime = None, overlay = Some sample_texts\<rparr>)
     = (None, None)
   \<and> extract_gps_from_text_overlay sample_search
       (overlay \<lparr>exif = None, exif_datetime = None, overlay = Some sample_texts\<rparr>)
       = Overlay (Some (41 / 2)) (Some (151 / 2)) None None None
   \<and> \<not> truthy None
   \<and> extract_gps_and_datetime sample_search (\<lambda>s fmt. None) 0
       \<lparr>exif = None, exif_datetime = None, overlay = Some sample_texts\<rparr>
       = Inr (None, None, None, None, Some ''TIME_PARSE_FAILED'')"
proof -
  have e: "extract_gps_from_exif
             (exif \<lparr>exif = None, exif_datetime = None, overlay = Some sample_texts\<rparr>)
           = (None, None)"
    by (simp add: extract_gps_from_exif_def)
  have o: "extract_gps_from_text_overlay sample_search
             (overlay \<lparr>exif = None, exif_datetime = None, overlay = Some sample_texts\<rparr>)
           = Overlay (Some (41 / 2)) (Some (151 / 2)) None None None"
    by code_simp
  have t: "\<not> truthy None" by (simp add: truthy_def)
  show ?thesis
    using time_parse_failed [OF e o, of "\<lambda>s fmt. None" 0] e o t by simp
qed

subsection \<open>Proximity check\<close>

lemma sites_loop_char:
  "sites_loop g lat lon r c sts =
     (case find (\<lambda>st. case g (lat, lon) (site_latitude st, site_longitude st) of
                        None \<Rightarrow> False | Some d \<Rightarrow> d \<le> r) sts of
        Some st \<Rightarrow>
          (True, Some st, Float (the (g (lat, lon) (site_latitude st, site_longitude st))))
      | None \<Rightarrow> (False, None,
          foldl (\<lambda>c d. if below d c then Float d else c) c
            (List.map_filter (\<lambda>st. g (lat, lon) (site_latitude st, site_longitude st)) sts)))"
  by (induction sts arbitrary: c) (auto simp: List.map_filter_simps split: option.splits)

lemma closest_fold_Float:
  "foldl (\<lambda>c d. if below d c then Float d else c) (Float x) ds = Float (Min (insert x (set ds)))"
proof (induction ds arbitrary: x)
  case Nil
  then show ?case by simp
next
  case (Cons d ds)
  have "Min (insert (min d x) (set ds)) = Min (insert x (insert d (set ds)))"
    by (cases "set ds = {}") (auto simp: min.commute min.left_commute min.assoc)
  then show ?case
    using Cons.IH[of d] Cons.IH[of x]
    by (auto simp: below_def min_def insert_commute)
qed

lemma closest_fold_PosInf:
  "foldl (\<lambda>c d. if below d c then Float d else c) PosInf ds =
     (if ds = [] then PosInf else Float (Min (set ds)))"
proof (cases ds)
  case Nil
  then show ?thesis by simp
next
  case (Cons d ds')
  have "below d PosInf" by (simp add: below_def)
  then show ?thesis unfolding Cons by (simp add: closest_fold_Float)
qed

text \<open>
  C6, as the code has it. For every point, list of sites and radius (2.0 km in the
  callers): when some site has a distance within the radius, the check returns true, the
  first such site in iteration order, and that site's distance; when none has, it returns
  false, no site (\<^verbatim>\<open>None\<close>), and the smallest of the distances, however large
  (\<^verbatim>\<open>inf\<close> when no distance could be computed). A site whose distance computation raises
  is skipped.
\<close>

theorem proximity_check:
  "is_within_site_range g lat lon sts r =
     (case find (\<lambda>st. case g (lat, lon) (site_latitude st, site_longitude st) of
                        None \<Rightarrow> False | Some d \<Rightarrow> d \<le> r) sts of
        Some st \<Rightarrow>
          (True, Some st, Float (the (g (lat, lon) (site_latitude st, site_longitude st))))
      | None \<Rightarrow>
          (let ds = List.map_filter (\<lambda>st. g (lat, lon) (site_latitude st, site_longitude st)) sts
           in (False, None, if ds = [] then PosInf else Float (Min (set ds)))))"
  unfolding is_within_site_range_def sites_loop_char closest_fold_PosInf Let_def ..

text \<open>
  C6 as stated fails: with the single sample site 111.319 km away, the site returned is
  \<^verbatim>\<open>None\<close>, not the nearest site.
\<close>

theorem nearest_site_counterexample:
  "is_within_site_range sample_geodesic 0 0 [sample_site] 2
     = (False, None, Float (111319 / 1000))
   \<and> fst (snd (is_within_site_range sample_geodesic 0 0 [sample_site] 2)) \<noteq> Some sample_site"
  by code_simp

subsection \<open>Daily sweep\<close>

lemma finalize_idem: "finalize (finalize a) = finalize a"
  by (simp add: finalize_def)

lemma finalize_keys:
  "att_employee_id (finalize a) = att_employee_id a" "att_date (finalize a) = att_date a"
  by (simp_all add: finalize_def)

lemma filter_delete_first:
  "(\<And>x. P x \<Longrightarrow> \<not> Q x) \<Longrightarrow> filter Q (delete_first P xs) = filter Q xs"
  by (induction xs) auto

lemma set_delete_first:
  "x \<in> set xs \<Longrightarrow> \<not> P x \<Longrightarrow> x \<in> set (delete_first P xs)"
  by (induction xs) auto

lemma attendances_delete:
  "attendances (delete_attendance P s) =
     (case find P (attendances s) of None \<Rightarrow> attendances s | Some a \<Rightarrow> delete_first P (attendances s))"
  by (simp add: delete_attendance_def split: option.splits)

lemma delete_first_none: "find P xs = None \<Longrightarrow> delete_first P xs = xs"
  by (induction xs) (auto split: if_splits)

lemma attendances_delete': "attendances (delete_attendance P s) = delete_first P (attendances s)"
  by (simp add: attendances_delete delete_first_none split: option.splits)

lemma cleanup_past:
  "filter (\<lambda>x. att_date x < d) (attendances (cleanup_incomplete_attendance today e s)) =
   filter (\<lambda>x. att_date x < d)
     (map (\<lambda>a. if att_employee_id a = e \<and> att_date a < today then finalize a else a) (attendances s))"
  if "d \<le> today"
proof -
  have "filter (\<lambda>x. att_date x < d) (delete_first (is_for e today) xs) = filter (\<lambda>x. att_date x < d) xs" for xs
    using that by (intro filter_delete_first) (auto simp: is_for_def)
  then show ?thesis
    by (simp add: cleanup_incomplete_attendance_def Let_def attendances_delete' split: option.splits)
qed

lemma cleanup_member:
  assumes "a \<in> set (attendances s)" "att_employee_id a = e" "att_date a < today"
  shows "finalize a \<in> set (attendances (cleanup_incomplete_attendance today e s))"
proof -
  let ?m = "map (\<lambda>a. if att_employee_id a = e \<and> att_date a < today then finalize a else a) (attendances s)"
  have m: "finalize a \<in> set ?m" using assms by force
  have nd: "\<not> is_for e today (finalize a)" using assms by (simp add: is_for_def finalize_keys)
  have "finalize a \<in> set (delete_first (is_for e today) ?m)"
    using m nd by (rule set_delete_first)
  then show ?thesis using m
    by (simp add: cleanup_incomplete_attendance_def Let_def attendances_delete' split: option.splits)
qed

text \<open>
  C8. For a row of the employee dated before today with exactly one of IN and OUT, one
  run of the per-employee sweep leaves the row with status \<^verbatim>\<open>Half Day\<close> and working hours
  \<^verbatim>\<open>0:00\<close>; a second run (the same day or later) leaves every row dated before today as
  the first run left it, in the same order: it changes none and deletes none.
\<close>

theorem sweep_idempotent:
  assumes "a \<in> set (attendances s)" and "att_employee_id a = e" and "att_date a < today"
    and "(in_time a = None) \<noteq> (out_time a = None)" and "today \<le> today'"
  shows "a\<lparr>att_status := ''Half Day'', working_hours := Some ''0:00''\<rparr>
           \<in> set (attendances (cleanup_incomplete_attendance today e s))
         \<and> filter (\<lambda>x. att_date x < today)
             (attendances (cleanup_incomplete_attendance today' e
                (cleanup_incomplete_attendance today e s)))
           = filter (\<lambda>x. att_date x < today)
               (attendances (cleanup_incomplete_attendance today e s))"
proof
  have "finalize a = a\<lparr>att_status := ''Half Day'', working_hours := Some ''0:00''\<rparr>"
    using assms(4) by (auto simp: finalize_def)
  then show "a\<lparr>att_status := ''Half Day'', working_hours := Some ''0:00''\<rparr>
           \<in> set (attendances (cleanup_incomplete_attendance today e s))"
    using cleanup_member[OF assms(1,2,3)] by simp
next
  let ?f = "\<lambda>t a. if att_employee_id a = e \<and> att_date a < t then finalize a else a"
  let ?past = "\<lambda>x. att_date x < today"
  let ?s1 = "cleanup_incomplete_attendance today e s"
  have keep: "?past (?f t x) = ?past x" for t x by (simp add: finalize_keys)
  have fm: "filter ?past (map (?f t) xs) = map (?f t) (filter ?past xs)" for t xs
    by (induction xs) (auto simp: finalize_keys)
  have "filter ?past (attendances (cleanup_incomplete_attendance today' e ?s1))
          = map (?f today') (filter ?past (attendances ?s1))"
    using cleanup_past[OF assms(5), of e ?s1] by (simp only: fm)
  also have "filter ?past (attendances ?s1) = map (?f today) (filter ?past (attendances s))"
    using cleanup_past[of today today e s] by (simp only: fm order_refl)
  also have "map (?f today') (map (?f today) (filter ?past (attendances s)))
               = map (?f today) (filter ?past (attendances s))"
    using assms(5) by (auto simp: finalize_idem finalize_keys)
  finally show "filter ?past (attendances (cleanup_incomplete_attendance today' e ?s1))
                  = filter ?past (attendances ?s1)"
    using cleanup_past[of today today e s] by (simp only: fm order_refl)
qed

theorem sweep_idempotent_witness:
  "sample_half_open \<in> set (attendances sample_past_db)
   \<and> att_employee_id sample_half_open = 7
   \<and> att_date sample_half_open < 739000
   \<and> (in_time sample_half_open = None) \<noteq> (out_time sample_half_open = None)
   \<and> (739000 :: int) \<le> 739001
   \<and> sample_half_open\<lparr>att_status := ''Half Day'', working_hours := Some ''0:00''\<rparr>
        \<in> set (attendances (cleanup_incomplete_attendance 739000 7 sample_past_db))
   \<and> filter (\<lambda>x. att_date x < 739000)
        (attendances (cleanup_incomplete_attendance 739001 7
           (cleanup_incomplete_attendance 739000 7 sample_past_db)))
      = filter (\<lambda>x. att_date x < 739000)
          (attendances (cleanup_incomplete_attendance 739000 7 sample_past_db))"
proof -
  have h1: "sample_half_open \<in> set (attendances sample_past_db)"
    by (simp add: sample_past_db_def)
  have h2: "att_employee_id sample_half_open = 7"
    by (simp add: sample_half_open_def new_attendance_def)
  have h3: "att_date sample_half_open < 739000"
    by (simp add: sample_half_open_def new_attendance_def)
  have h4: "(in_time sample_half_open = None) \<noteq> (out_time sample_half_open = None)"
    by (simp add: sample_half_open_def new_attendance_def)
  have h5: "(739000 :: int) \<le> 739001" by simp
  show ?thesis
    using sweep_idempotent [OF h1 h2 h3 h4 h5] h1 h2 h3 h4 by simp
qed

subsection \<open>Fetching and changing rows\<close>

lemma find_update_first:
  "(\<And>x. P (f x) = P x) \<Longrightarrow> find P (update_first P f xs) = map_option f (find P xs)"
  by (induction xs) auto

lemma find_update_first_Some:
  "find P xs = Some x \<Longrightarrow> P (f x) \<Longrightarrow> find P (update_first P f xs) = Some (f x)"
  by (induction xs) (auto split: if_splits)

lemma map_update_first:
  "(\<And>x. h (f x) = h x) \<Longrightarrow> map h (update_first P f xs) = map h xs"
  by (induction xs) auto

lemma find_append:
  "find P (xs @ ys) = (case find P xs of None \<Rightarrow> find P ys | Some x \<Rightarrow> Some x)"
  by (induction xs) auto

lemma is_for_new [simp]: "is_for e d (new_attendance i e d)"
  by (simp add: is_for_def new_attendance_def)

lemma find_get_or_create:
  assumes "\<And>a. is_for e d (f a) = is_for e d a"
  shows "find (is_for e d) (attendances (get_or_create e d f s)) =
           Some (f (case find (is_for e d) (attendances s) of
                      Some a \<Rightarrow> a | None \<Rightarrow> new_attendance (next_attendance_id s) e d))"
proof (cases "find (is_for e d) (attendances s)")
  case None
  then show ?thesis
    by (simp add: get_or_create_def find_append assms)
next
  case (Some a)
  then show ?thesis
    using find_update_first[of "is_for e d" f "attendances s", OF assms]
    by (simp add: get_or_create_def)
qed

lemma is_for_set_pending [simp]: "is_for e d (set_pending tp t lat lon addr a) = is_for e d a"
  by (simp add: is_for_def set_pending_def)

lemma is_for_apply_approval [simp]: "is_for e d (apply_approval p a) = is_for e d a"
  by (simp add: is_for_def apply_approval_def clear_pending_def Let_def)

lemma is_for_clear_pending [simp]: "is_for e d (clear_pending a) = is_for e d a"
  by (simp add: is_for_def clear_pending_def)

lemma process_out_of_range:
  assumes "check_submission ev pf = Evidence lat lon address t"
    and "fst (is_within_site_range (env_geodesic ev) lat lon
           (filter (\<lambda>st. Some (site_branch_id st) = emp_branch_id emp) (sites s)) 2) = False"
  shows "process_attendance ev emp pf tp s =
     (let s1 = cleanup_incomplete_attendance (date_of (now_cleanup ev)) (emp_id emp) s;
          s2 = get_or_create (emp_id emp) (date_of t) (set_pending tp t lat lon address) s1;
          s3 = s2\<lparr>approvals := approvals s2 @
                     [new_approval ev (next_approval_id s2) emp
                        (find (is_for (emp_id emp) (date_of t)) (attendances s1)) (date_of t)
                        tp lat lon address t],
                   next_approval_id := Suc (next_approval_id s2)\<rparr>;
          dkm = snd (snd (is_within_site_range (env_geodesic ev) lat lon
                   (filter (\<lambda>st. Some (site_branch_id st) = emp_branch_id emp) (sites s)) 2))
      in (Inr (if send_admin_approval_email s3 then (True, SentForApproval address t dkm)
               else (False, FailedToNotifyAdmin)), s3))"
proof -
  obtain w m d where r: "is_within_site_range (env_geodesic ev) lat lon
           (filter (\<lambda>st. Some (site_branch_id st) = emp_branch_id emp) (sites s)) 2 = (w, m, d)"
    by (cases "is_within_site_range (env_geodesic ev) lat lon
           (filter (\<lambda>st. Some (site_branch_id st) = emp_branch_id emp) (sites s)) 2") auto
  with assms(2) have "\<not> w" by simp
  then show ?thesis
    using assms(1) r by (simp add: process_attendance_def Let_def)
qed

lemma approvals_get_or_create [simp]: "approvals (get_or_create e d f s) = approvals s"
  by (simp add: get_or_create_def split: option.splits)

subsection \<open>Admin reject\<close>

text \<open>
  C7. When the approval and the admin exist, the reject handler commits and: the
  approval has status \<^verbatim>\<open>Rejected\<close>, the time of the decision, the deciding admin and the
  remarks (the form's, or \<^verbatim>\<open>Rejected by admin\<close>); the first attendance row of the
  approval's employee and date, if there is one, has its seven pending columns cleared;
  and in every attendance row the IN and OUT times, photos, coordinates and addresses are
  what they were.
\<close>

theorem reject_frame:
  assumes "find (\<lambda>p. apr_id p = approval_id) (approvals s) = Some approval"
    and "find (\<lambda>a. admin_id a = session_admin) (admins s) = Some adm"
  shows "\<exists>s'. reject_attendance utcnow session_admin remarks approval_id s
                 = (Inr ''Attendance rejected successfully!'', s')
           \<and> find (\<lambda>p. apr_id p = approval_id) (approvals s')
               = Some (approval\<lparr>apr_status := ''Rejected'', apr_approved_at := Some utcnow,
                                apr_approved_by := Some (admin_id adm),
                                apr_remarks := Some (case remarks of
                                                       None \<Rightarrow> ''Rejected by admin''
                                                     | Some r \<Rightarrow> r)\<rparr>)
           \<and> find (is_for (apr_employee_id approval) (apr_date approval)) (attendances s')
               = map_option
                   (\<lambda>a. a\<lparr>pending_approval := False, pending_type := None,
                           pending_latitude := None, pending_longitude := None,
                           pending_address := None, pending_time := None,
                           pending_photo := None\<rparr>)
                   (find (is_for (apr_employee_id approval) (apr_date approval)) (attendances s))
           \<and> map (\<lambda>a. (in_time a, in_photo a, in_latitude a, in_longitude a, in_address a,
                        out_time a, out_photo a, out_latitude a, out_longitude a, out_address a))
                 (attendances s')
               = map (\<lambda>a. (in_time a, in_photo a, in_latitude a, in_longitude a, in_address a,
                            out_time a, out_photo a, out_latitude a, out_longitude a,
                            out_address a))
                   (attendances s)"
proof -
  let ?p' = "decide ''Rejected'' utcnow (admin_id adm)
               (case remarks of None \<Rightarrow> ''Rejected by admin'' | Some r \<Rightarrow> r) approval"
  let ?P = "is_for (apr_employee_id approval) (apr_date approval)"
  let ?s' = "s\<lparr>approvals := update_first (\<lambda>p. apr_id p = approval_id) (\<lambda>p. ?p') (approvals s),
               attendances := update_first ?P clear_pending (attendances s)\<rparr>"
  have id: "apr_id approval = approval_id"
    using assms(1) by (auto dest: find_Some_iff[THEN iffD1])
  have r: "reject_attendance utcnow session_admin remarks approval_id s
             = (Inr ''Attendance rejected successfully!'', ?s')"
    using assms by (simp add: reject_attendance_def Let_def)
  have a: "find (\<lambda>p. apr_id p = approval_id) (approvals ?s') = Some ?p'"
    using find_update_first_Some[OF assms(1), of "\<lambda>p. ?p'"] id by (simp add: decide_def)
  have b: "find ?P (attendances ?s') = map_option clear_pending (find ?P (attendances s))"
    by (simp add: find_update_first)
  have c: "map (\<lambda>a. (in_time a, in_photo a, in_latitude a, in_longitude a, in_address a,
                        out_time a, out_photo a, out_latitude a, out_longitude a, out_address a))
                 (attendances ?s')
             = map (\<lambda>a. (in_time a, in_photo a, in_latitude a, in_longitude a, in_address a,
                            out_time a, out_photo a, out_latitude a, out_longitude a,
                            out_address a))
                   (attendances s)"
    by (simp add: map_update_first clear_pending_def)
  show ?thesis
    apply (rule exI[of _ ?s'])
    using r a b c unfolding decide_def clear_pending_def by simp
qed

theorem reject_frame_witness:
  "find (\<lambda>p. apr_id p = 1) (approvals sample_pending_db) = Some sample_approval
   \<and> find (\<lambda>a. admin_id a = 1) (admins sample_pending_db) = Some sample_admin
   \<and> (\<exists>s'. reject_attendance sample_now 1 None 1 sample_pending_db
                = (Inr ''Attendance rejected successfully!'', s')
          \<and> find (\<lambda>p. apr_id p = 1) (approvals s')
              = Some (sample_approval\<lparr>apr_status := ''Rejected'',
                        apr_approved_at := Some sample_now,
                        apr_approved_by := Some (admin_id sample_admin),
                        apr_remarks := Some ''Rejected by admin''\<rparr>)
          \<and> map pending_approval (attendances s') = [False]
          \<and> map in_time (attendances s') = [None])"
proof -
  have h1: "find (\<lambda>p. apr_id p = 1) (approvals sample_pending_db) = Some sample_approval"
    by code_simp
  have h2: "find (\<lambda>a. admin_id a = 1) (admins sample_pending_db) = Some sample_admin"
    by code_simp
  obtain s' where r: "reject_attendance sample_now 1 None 1 sample_pending_db
                = (Inr ''Attendance rejected successfully!'', s')"
    and p: "find (\<lambda>p. apr_id p = 1) (approvals s')
              = Some (sample_approval\<lparr>apr_status := ''Rejected'',
                        apr_approved_at := Some sample_now,
                        apr_approved_by := Some (admin_id sample_admin),
                        apr_remarks := Some ''Rejected by admin''\<rparr>)"
    using reject_frame [OF h1 h2, where utcnow = sample_now and remarks = None] by auto
  have e: "map pending_approval
             (attendances (snd (reject_attendance sample_now 1 None 1 sample_pending_db)))
           = [False]
         \<and> map in_time
             (attendances (snd (reject_attendance sample_now 1 None 1 sample_pending_db)))
           = [None]"
    by code_simp
  show ?thesis using h1 h2 r p e by auto
qed

subsection \<open>Pending side channel\<close>

lemma pending_populated_set_pending:
  "tp = ''in'' \<or> tp = ''out'' \<Longrightarrow> pending_populated (set_pending tp t lat lon addr a)"
  by (simp add: pending_populated_def set_pending_def)

lemma pending_cleared_apply_approval: "pending_cleared (apply_approval p a)"
  by (simp add: pending_cleared_def apply_approval_def clear_pending_def Let_def)

lemma pending_cleared_clear_pending: "pending_cleared (clear_pending a)"
  by (simp add: pending_cleared_def clear_pending_def)

text \<open>
  C2. After each operation that commits an attendance row's side channel, the pending
  fields of the row are all populated, with a type of \<^verbatim>\<open>in\<close> or \<^verbatim>\<open>out\<close>, or all NULL, never
  a mixture. After an out-of-range submission of type \<^verbatim>\<open>in\<close> or \<^verbatim>\<open>out\<close> the employee's row
  of the day is populated: the flag is true, the type is the submitted one, and
  coordinates, address and time are all present. After an approve that commits, the row
  of the approval's employee and date is cleared: the flag false, type, coordinates,
  address and time NULL. After a reject that commits, that row, if there is one, is
  cleared likewise. The photo column, which the code never fills, is NULL throughout.
\<close>

theorem pending_side_channel:
  "(tp = ''in'' \<or> tp = ''out'' \<longrightarrow>
    check_submission ev pf = Evidence lat lon address t \<longrightarrow>
    fst (is_within_site_range (env_geodesic ev) lat lon
           (filter (\<lambda>st. Some (site_branch_id st) = emp_branch_id emp) (sites s)) 2) = False \<longrightarrow>
    (\<exists>a. find (is_for (emp_id emp) (date_of t))
            (attendances (snd (process_attendance ev emp pf tp s))) = Some a
          \<and> pending_populated a))
   \<and> (find (\<lambda>p. apr_id p = i) (approvals s) = Some p \<longrightarrow>
      fst (approve_attendance utcnow adm remarks i s) = Inr msg \<longrightarrow>
      (\<exists>a. find (is_for (apr_employee_id p) (apr_date p))
              (attendances (snd (approve_attendance utcnow adm remarks i s))) = Some a
            \<and> pending_cleared a))
   \<and> (find (\<lambda>p. apr_id p = i) (approvals s) = Some p \<longrightarrow>
      fst (reject_attendance utcnow adm remarks i s) = Inr msg \<longrightarrow>
      find (is_for (apr_employee_id p) (apr_date p))
        (attendances (snd (reject_attendance utcnow adm remarks i s))) = Some a' \<longrightarrow>
      pending_cleared a')"
proof (intro conjI impI)
  assume tp: "tp = ''in'' \<or> tp = ''out''"
    and c: "check_submission ev pf = Evidence lat lon address t"
    and w: "fst (is_within_site_range (env_geodesic ev) lat lon
           (filter (\<lambda>st. Some (site_branch_id st) = emp_branch_id emp) (sites s)) 2) = False"
  show "\<exists>a. find (is_for (emp_id emp) (date_of t))
            (attendances (snd (process_attendance ev emp pf tp s))) = Some a
          \<and> pending_populated a"
    unfolding process_out_of_range[OF c w]
    by (simp add: Let_def find_get_or_create pending_populated_set_pending[OF tp])
next
  assume p: "find (\<lambda>p. apr_id p = i) (approvals s) = Some p"
    and ok: "fst (approve_attendance utcnow adm remarks i s) = Inr msg"
  show "\<exists>a. find (is_for (apr_employee_id p) (apr_date p))
              (attendances (snd (approve_attendance utcnow adm remarks i s))) = Some a
            \<and> pending_cleared a"
    using p ok
    by (auto simp: approve_attendance_def Let_def find_get_or_create
        pending_cleared_apply_approval split: option.splits)
next
  assume p: "find (\<lambda>p. apr_id p = i) (approvals s) = Some p"
    and ok: "fst (reject_attendance utcnow adm remarks i s) = Inr msg"
    and a: "find (is_for (apr_employee_id p) (apr_date p))
        (attendances (snd (reject_attendance utcnow adm remarks i s))) = Some a'"
  show "pending_cleared a'"
    using p ok a
    by (auto simp: reject_attendance_def Let_def find_update_first
        pending_cleared_clear_pending split: option.splits)
qed

theorem pending_side_channel_witness:
  "check_submission sample_env (Some sample_upload)
     = Evidence 0 0 ''Null Island'' sample_now
   \<and> fst (is_within_site_range (env_geodesic sample_env) 0 0
            (filter (\<lambda>st. Some (site_branch_id st) = emp_branch_id sample_employee)
               (sites sample_db)) 2) = False
   \<and> (\<exists>a. find (is_for (emp_id sample_employee) (date_of sample_now))
              (attendances (snd (process_attendance sample_env sample_employee
                                   (Some sample_upload) ''in'' sample_db))) = Some a
          \<and> pending_populated a)
   \<and> find (\<lambda>p. apr_id p = 1) (approvals sample_pending_db) = Some sample_approval
   \<and> fst (approve_attendance sample_now 1 None 1 sample_pending_db)
       = Inr ''Attendance approved successfully!''
   \<and> (\<exists>a. find (is_for (apr_employee_id sample_approval) (apr_date sample_approval))
              (attendances (snd (approve_attendance sample_now 1 None 1 sample_pending_db)))
            = Some a
          \<and> pending_cleared a)
   \<and> fst (reject_attendance sample_now 1 None 1 sample_pending_db)
       = Inr ''Attendance rejected successfully!''
   \<and> find (is_for (apr_employee_id sample_approval) (apr_date sample_approval))
       (attendances (snd (reject_attendance sample_now 1 None 1 sample_pending_db)))
       = Some (new_attendance 1 7 739000)
   \<and> pending_cleared (new_attendance 1 7 739000)"
proof -
  have c: "check_submission sample_env (Some sample_upload)
             = Evidence 0 0 ''Null Island'' sample_now"
    by code_simp
  have w: "fst (is_within_site_range (env_geodesic sample_env) 0 0
            (filter (\<lambda>st. Some (site_branch_id st) = emp_branch_id sample_employee)
               (sites sample_db)) 2) = False"
    by code_simp
  have tp: "''in'' = ''in'' \<or> ''in'' = ''out''" by simp
  have p: "find (\<lambda>p. apr_id p = 1) (approvals sample_pending_db) = Some sample_approval"
    by code_simp
  have ap: "fst (approve_attendance sample_now 1 None 1 sample_pending_db)
              = Inr ''Attendance approved successfully!''"
    by code_simp
  have rj: "fst (reject_attendance sample_now 1 None 1 sample_pending_db)
              = Inr ''Attendance rejected successfully!''"
    by code_simp
  have f: "find (is_for (apr_employee_id sample_approval) (apr_date sample_approval))
             (attendances (snd (reject_attendance sample_now 1 None 1 sample_pending_db)))
           = Some (new_attendance 1 7 739000)"
    by code_simp
  note t = pending_side_channel
    [where tp = "''in''" and ev = sample_env and pf = "Some sample_upload"
       and lat = 0 and lon = 0 and address = "''Null Island''" and t = sample_now
       and emp = sample_employee and s = sample_db]
  note u = pending_side_channel
    [where i = 1 and s = sample_pending_db and p = sample_approval and utcnow = sample_now
       and adm = 1 and remarks = None and a' = "new_attendance 1 7 739000"]
  have 1: "\<exists>a. find (is_for (emp_id sample_employee) (date_of sample_now))
              (attendances (snd (process_attendance sample_env sample_employee
                                   (Some sample_upload) ''in'' sample_db))) = Some a
          \<and> pending_populated a"
    using t tp c w by blast
  have 2: "\<exists>a. find (is_for (apr_employee_id sample_approval) (apr_date sample_approval))
              (attendances (snd (approve_attendance sample_now 1 None 1 sample_pending_db)))
            = Some a
          \<and> pending_cleared a"
    using u p ap by blast
  have 3: "pending_cleared (new_attendance 1 7 739000)"
    using u p rj f by blast
  show ?thesis using c w 1 p ap 2 rj f 3 by blast
qed

subsection \<open>OUT requires IN\<close>

text \<open>
  C10. When no attendance row of the employee dated today has an IN time, the OUT handler
  flashes the must-mark-IN-first message and leaves the database as it was, whatever the
  upload, the face check and the evidence are; and whenever the handler does anything
  else, such a row exists and the handler's result is that of attendance processing.
\<close>

theorem out_requires_in:
  "(\<not> (\<exists>a \<in> set (attendances s). is_for (emp_id emp) (date_of now) a \<and> in_time a \<noteq> None) \<longrightarrow>
      attendance_out ev now emp pf s = (Inr (Flash ''danger'' MustMarkInFirst), s))
   \<and> (attendance_out ev now emp pf s \<noteq> (Inr (Flash ''danger'' MustMarkInFirst), s) \<longrightarrow>
      (\<exists>a \<in> set (attendances s). is_for (emp_id emp) (date_of now) a \<and> in_time a \<noteq> None)
      \<and> attendance_out ev now emp pf s = flash_result (process_attendance ev emp pf ''out'' s))"
proof -
  have 1: "attendance_out ev now emp pf s = (Inr (Flash ''danger'' MustMarkInFirst), s)"
    if "\<not> (\<exists>a \<in> set (attendances s). is_for (emp_id emp) (date_of now) a \<and> in_time a \<noteq> None)"
  proof (cases "find (is_for (emp_id emp) (date_of now)) (attendances s)")
    case None
    then show ?thesis by (simp add: attendance_out_def)
  next
    case (Some a)
    then have "a \<in> set (attendances s)" "is_for (emp_id emp) (date_of now) a"
      by (auto simp: find_Some_iff)
    with that have "in_time a = None" by blast
    with Some show ?thesis by (simp add: attendance_out_def)
  qed
  have 2: "attendance_out ev now emp pf s = flash_result (process_attendance ev emp pf ''out'' s)"
    if "attendance_out ev now emp pf s \<noteq> (Inr (Flash ''danger'' MustMarkInFirst), s)"
    using that by (simp add: attendance_out_def Let_def split: if_splits)
  show ?thesis using 1 2 by blast
qed

theorem out_requires_in_witness:
  "\<not> (\<exists>a \<in> set (attendances sample_db).
         is_for (emp_id sample_employee) (date_of sample_now) a \<and> in_time a \<noteq> None)
   \<and> attendance_out sample_env sample_now sample_employee (Some sample_upload) sample_db
       = (Inr (Flash ''danger'' MustMarkInFirst), sample_db)
   \<and> attendance_out sample_env sample_now sample_employee (Some sample_upload)
        sample_marked_db
       \<noteq> (Inr (Flash ''danger'' MustMarkInFirst), sample_marked_db)
   \<and> (\<exists>a \<in> set (attendances sample_marked_db).
         is_for (emp_id sample_employee) (date_of sample_now) a \<and> in_time a \<noteq> None)
   \<and> attendance_out sample_env sample_now sample_employee (Some sample_upload)
        sample_marked_db
       = flash_result (process_attendance sample_env sample_employee
                         (Some sample_upload) ''out'' sample_marked_db)"
proof -
  have h1: "\<not> (\<exists>a \<in> set (attendances sample_db).
         is_for (emp_id sample_employee) (date_of sample_now) a \<and> in_time a \<noteq> None)"
    by (simp add: sample_db_def)
  have h2: "attendance_out sample_env sample_now sample_employee (Some sample_upload)
              sample_marked_db
            \<noteq> (Inr (Flash ''danger'' MustMarkInFirst), sample_marked_db)"
    by code_simp
  note t = out_requires_in [where s = sample_db and emp = sample_employee and now = sample_now
      and ev = sample_env and pf = "Some sample_upload"]
  note u = out_requires_in [where s = sample_marked_db and emp = sample_employee
      and now = sample_now and ev = sample_env and pf = "Some sample_upload"]
  show ?thesis using t u h1 h2 by blast
qed

subsection \<open>Out-of-range submission and the notification\<close>

text \<open>
  C1, as the code has it. For a submission that passes the checks and whose location is
  out of range of every site of the employee's branch: the database committed is the
  sweep's result with the row's pending side channel set and the approval request
  appended, fixed before the notification is attempted and the same whatever its outcome;
  the notification fails, and the value returned is not accepted, with the
  failed-to-notify message.
\<close>

theorem out_of_range_submission:
  assumes "check_submission ev pf = Evidence lat lon address t"
    and "is_within_site_range (env_geodesic ev) lat lon
           (filter (\<lambda>st. Some (site_branch_id st) = emp_branch_id emp) (sites s)) 2
         = (False, m, dkm)"
  shows "fst (process_attendance ev emp pf tp s) = Inr (False, FailedToNotifyAdmin)
         \<and> snd (process_attendance ev emp pf tp s)
             = (let s1 = cleanup_incomplete_attendance (date_of (now_cleanup ev)) (emp_id emp) s;
                    s2 = get_or_create (emp_id emp) (date_of t)
                           (set_pending tp t lat lon address) s1
                in s2\<lparr>approvals := approvals s2 @
                         [new_approval ev (next_approval_id s2) emp
                            (find (is_for (emp_id emp) (date_of t)) (attendances s1))
                            (date_of t) tp lat lon address t],
                       next_approval_id := Suc (next_approval_id s2)\<rparr>)
         \<and> (\<exists>a. find (is_for (emp_id emp) (date_of t))
                    (attendances (snd (process_attendance ev emp pf tp s))) = Some a
                \<and> pending_approval a \<and> pending_type a = Some tp
                \<and> pending_latitude a = Some lat \<and> pending_longitude a = Some lon
                \<and> pending_address a = Some address \<and> pending_time a = Some t)
         \<and> (\<exists>p. approvals (snd (process_attendance ev emp pf tp s))
                    = approvals (cleanup_incomplete_attendance (date_of (now_cleanup ev))
                                   (emp_id emp) s) @ [p]
                \<and> apr_status p = ''Pending'' \<and> apr_employee_id p = emp_id emp
                \<and> apr_date p = date_of t \<and> apr_attendance_type p = tp
                \<and> apr_latitude p = lat \<and> apr_longitude p = lon \<and> apr_time p = t)"
proof -
  have w: "fst (is_within_site_range (env_geodesic ev) lat lon
           (filter (\<lambda>st. Some (site_branch_id st) = emp_branch_id emp) (sites s)) 2) = False"
    by (simp add: assms(2))
  note p = process_out_of_range[OF assms(1) w, of tp]
  have 1: "fst (process_attendance ev emp pf tp s) = Inr (False, FailedToNotifyAdmin)"
    unfolding p by (simp add: Let_def send_admin_approval_email_def)
  have 2: "snd (process_attendance ev emp pf tp s)
             = (let s1 = cleanup_incomplete_attendance (date_of (now_cleanup ev)) (emp_id emp) s;
                    s2 = get_or_create (emp_id emp) (date_of t)
                           (set_pending tp t lat lon address) s1
                in s2\<lparr>approvals := approvals s2 @
                         [new_approval ev (next_approval_id s2) emp
                            (find (is_for (emp_id emp) (date_of t)) (attendances s1))
                            (date_of t) tp lat lon address t],
                       next_approval_id := Suc (next_approval_id s2)\<rparr>)"
    unfolding p by (simp add: Let_def)
  have 3: "\<exists>a. find (is_for (emp_id emp) (date_of t))
                    (attendances (snd (process_attendance ev emp pf tp s))) = Some a
                \<and> pending_approval a \<and> pending_type a = Some tp
                \<and> pending_latitude a = Some lat \<and> pending_longitude a = Some lon
                \<and> pending_address a = Some address \<and> pending_time a = Some t"
    unfolding p by (simp add: Let_def find_get_or_create) (simp add: set_pending_def)
  have 4: "\<exists>p. approvals (snd (process_attendance ev emp pf tp s))
                    = approvals (cleanup_incomplete_attendance (date_of (now_cleanup ev))
                                   (emp_id emp) s) @ [p]
                \<and> apr_status p = ''Pending'' \<and> apr_employee_id p = emp_id emp
                \<and> apr_date p = date_of t \<and> apr_attendance_type p = tp
                \<and> apr_latitude p = lat \<and> apr_longitude p = lon \<and> apr_time p = t"
    unfolding p by (simp add: Let_def new_approval_def)
  show ?thesis using 1 2 3 4 by blast
qed

text \<open>
  C1 as stated fails: the sample out-of-range check-in, whose notification fails,
  returns not accepted, with the pending state committed.
\<close>

theorem notify_failure_counterexample:
  "check_submission sample_env (Some sample_upload)
     = Evidence 0 0 ''Null Island'' sample_now
   \<and> is_within_site_range sample_geodesic 0 0 (sites sample_db) 2
       = (False, None, Float (111319 / 1000))
   \<and> send_admin_approval_email
       (snd (process_attendance sample_env sample_employee (Some sample_upload) ''in''
               sample_db))
       = False
   \<and> fst (process_attendance sample_env sample_employee (Some sample_upload) ''in''
            sample_db)
       = Inr (False, FailedToNotifyAdmin)
   \<and> map pending_approval
       (attendances (snd (process_attendance sample_env sample_employee
                            (Some sample_upload) ''in'' sample_db)))
       = [True]"
  by code_simp

theorem out_of_range_submission_witness:
  "check_submission sample_env (Some sample_upload)
     = Evidence 0 0 ''Null Island'' sample_now
   \<and> is_within_site_range (env_geodesic sample_env) 0 0
       (filter (\<lambda>st. Some (site_branch_id st) = emp_branch_id sample_employee)
          (sites sample_db)) 2
       = (False, None, Float (111319 / 1000))
   \<and> fst (process_attendance sample_env sample_employee (Some sample_upload) ''in''
            sample_db)
       = Inr (False, FailedToNotifyAdmin)
   \<and> (\<exists>a. find (is_for (emp_id sample_employee) (date_of sample_now))
              (attendances (snd (process_attendance sample_env sample_employee
                                   (Some sample_upload) ''in'' sample_db))) = Some a
          \<and> pending_approval a \<and> pending_type a = Some ''in''
          \<and> pending_latitude a = Some 0 \<and> pending_longitude a = Some 0
          \<and> pending_address a = Some ''Null Island'' \<and> pending_time a = Some sample_now)"
proof -
  have c: "check_submission sample_env (Some sample_upload)
             = Evidence 0 0 ''Null Island'' sample_now"
    by code_simp
  have w: "is_within_site_range (env_geodesic sample_env) 0 0
             (filter (\<lambda>st. Some (site_branch_id st) = emp_branch_id sample_employee)
                (sites sample_db)) 2
           = (False, None, Float (111319 / 1000))"
    by code_simp
  show ?thesis
    using out_of_range_submission [OF c w, where tp = "''in''"] c w by blast
qed

end
